theory Spec2Isabelle
  imports Complex_Main
begin

section \<open>JavaScript values\<close>

text \<open>
  JavaScript numbers are modelled as exact reals: the code rounds every amount to whole
  cents before it is stored, and IEEE rounding error is outside the model. A timestamp is
  the number of milliseconds since the epoch; the store keeps ISO-8601 text, which orders
  the same way. A thrown exception is a value \<open>Inl (Error msg)\<close>.
\<close>

type_synonym timestamp = int

datatype error = Error string

definition Math_round :: "real \<Rightarrow> int" where
  "Math_round x = \<lfloor>x + 1 / 2\<rfloor>"

definition Math_floor :: "real \<Rightarrow> int" where
  "Math_floor x = \<lfloor>x\<rfloor>"

definition Math_ceil :: "real \<Rightarrow> int" where
  "Math_ceil x = \<lceil>x\<rceil>"

text \<open>Truthiness of a nullable string: \<open>null\<close> and the empty string are falsy.\<close>

definition truthy :: "string option \<Rightarrow> bool" where
  "truthy x = (case x of None \<Rightarrow> False | Some v \<Rightarrow> v \<noteq> [])"

text \<open>\<open>Number(v) || d\<close>: zero falls back to the default.\<close>

definition or_default :: "real \<Rightarrow> real \<Rightarrow> real" where
  "or_default v d = (if v = 0 then d else v)"

section \<open>Configuration (config.yaml)\<close>

record distribution =
  dist_first :: real
  dist_second :: real
  dist_third :: real

record config =
  holder_role_id :: "string option"
  morning_trade_hour :: int
  morning_trade_minute :: int
  morning_blackout_minutes :: int
  trade_hours_start :: int
  trade_hours_end :: int
  interval_variance_minutes :: int
  min_gap_minutes :: int
  voting_window_seconds :: int
  min_votes :: int
  max_position_pct :: real
  min_position_pct :: real
  min_payout_usd :: real
  payout_share :: real
  payout_distribution :: distribution
  weight_increase_per_prediction :: real
  max_weight :: real

section \<open>Unsigned transaction requests (src/services/payouts.js)\<close>

text \<open>A field of a JavaScript object: \<open>undefined\<close>, \<open>null\<close> or a value.\<close>

datatype 'a js = Undefined | Null | Val 'a

definition missing :: "'a js \<Rightarrow> bool" where
  "missing x = (x = Undefined \<or> x = Null)"

text \<open>
  \<open>BigNumber.from(x).toString()\<close> writes an integer in decimal, and \<open>BigNumber.from\<close> reads
  such a string back. A string that is not an optionally signed run of decimal digits is
  modelled as a throw (the store only ever holds what \<open>toString\<close> wrote).
\<close>

definition digit_char :: "nat \<Rightarrow> char" where
  "digit_char d = ''0123456789'' ! d"

definition digit_val :: "char \<Rightarrow> nat option" where
  "digit_val c =
     (let code = (of_char c :: nat)
      in if 48 \<le> code \<and> code \<le> 57 then Some (code - 48) else None)"

fun nat_toString :: "nat \<Rightarrow> string" where
  "nat_toString n =
     (if n < 10 then [digit_char n] else nat_toString (n div 10) @ [digit_char (n mod 10)])"

declare nat_toString.simps [simp del]

definition toString :: "int \<Rightarrow> string" where
  "toString n = (if n < 0 then CHR ''-'' # nat_toString (nat (- n)) else nat_toString (nat n))"

fun parse_digits :: "nat \<Rightarrow> string \<Rightarrow> nat option" where
  "parse_digits acc [] = Some acc"
| "parse_digits acc (c # cs) =
     (case digit_val c of None \<Rightarrow> None | Some d \<Rightarrow> parse_digits (10 * acc + d) cs)"

definition BigNumber_from_string :: "string \<Rightarrow> error + int" where
  "BigNumber_from_string str =
     (case str of
        [] \<Rightarrow> Inl (Error ''invalid BigNumber string'')
      | c # cs \<Rightarrow>
          if c = CHR ''-''
          then (if cs = [] then Inl (Error ''invalid BigNumber string'')
                else case parse_digits 0 cs of
                       None \<Rightarrow> Inl (Error ''invalid BigNumber string'')
                     | Some n \<Rightarrow> Inr (- int n))
          else (case parse_digits 0 (c # cs) of
                  None \<Rightarrow> Inl (Error ''invalid BigNumber string'')
                | Some n \<Rightarrow> Inr (int n)))"

text \<open>
  \<open>BigNumber.from\<close> on a field of the request: a value \<open>Val n\<close> stands for any BigNumberish
  that denotes the integer \<open>n\<close>; \<open>null\<close> and \<open>undefined\<close> throw.
\<close>

definition BigNumber_from :: "int js \<Rightarrow> error + int" where
  "BigNumber_from x =
     (case x of Val n \<Rightarrow> Inr n | _ \<Rightarrow> Inl (Error ''invalid BigNumber value''))"

definition BigNumber_from_stored :: "string js \<Rightarrow> error + int" where
  "BigNumber_from_stored x =
     (case x of Val str \<Rightarrow> BigNumber_from_string str
      | _ \<Rightarrow> Inl (Error ''invalid BigNumber value''))"

record tx_request =
  tx_to :: "string js"
  tx_data :: "string js"
  tx_value :: "int js"
  tx_nonce :: "int js"
  tx_gasLimit :: "int js"
  tx_chainId :: "int js"
  tx_type :: "int js"
  tx_gasPrice :: "int js"
  tx_maxFeePerGas :: "int js"
  tx_maxPriorityFeePerGas :: "int js"

text \<open>
  The text \<open>JSON.stringify\<close> writes is kept as the object \<open>JSON.parse\<close> reads back from it:
  an \<open>undefined\<close> field is dropped by \<open>stringify\<close> and so reads back as \<open>undefined\<close>.
\<close>

record json_tx =
  j_to :: "string js"
  j_data :: "string js"
  j_value :: "string js"
  j_nonce :: "int js"
  j_gasLimit :: "string js"
  j_chainId :: "int js"
  j_type :: "int js"
  j_gasPrice :: "string js"
  j_maxFeePerGas :: "string js"
  j_maxPriorityFeePerGas :: "string js"

definition serializeTxRequest :: "tx_request \<Rightarrow> error + json_tx" where
  "serializeTxRequest txRequest =
     (if missing (tx_to txRequest) then Inl (Error ''[PAYOUT] Missing tx field: to'')
      else if missing (tx_data txRequest) then Inl (Error ''[PAYOUT] Missing tx field: data'')
      else if missing (tx_value txRequest) then Inl (Error ''[PAYOUT] Missing tx field: value'')
      else if missing (tx_nonce txRequest) then Inl (Error ''[PAYOUT] Missing tx field: nonce'')
      else if missing (tx_gasLimit txRequest)
           then Inl (Error ''[PAYOUT] Missing tx field: gasLimit'')
      else if missing (tx_chainId txRequest)
           then Inl (Error ''[PAYOUT] Missing tx field: chainId'')
      else
        case BigNumber_from (tx_value txRequest) of Inl e \<Rightarrow> Inl e | Inr v \<Rightarrow>
        case BigNumber_from (tx_gasLimit txRequest) of Inl e \<Rightarrow> Inl e | Inr g \<Rightarrow>
        let normalized =
              \<lparr>j_to = tx_to txRequest, j_data = tx_data txRequest,
               j_value = Val (toString v), j_nonce = tx_nonce txRequest,
               j_gasLimit = Val (toString g), j_chainId = tx_chainId txRequest,
               j_type = Undefined, j_gasPrice = Undefined, j_maxFeePerGas = Undefined,
               j_maxPriorityFeePerGas = Undefined\<rparr>
        in if tx_type txRequest = Val 2 then
             (if tx_maxFeePerGas txRequest = Undefined
                 \<or> tx_maxPriorityFeePerGas txRequest = Undefined
              then Inl (Error ''[PAYOUT] Missing EIP-1559 fee fields'')
              else if \<not> missing (tx_gasPrice txRequest)
              then Inl (Error ''[PAYOUT] Unexpected gasPrice on EIP-1559 tx'')
              else
                case BigNumber_from (tx_maxFeePerGas txRequest) of Inl e \<Rightarrow> Inl e | Inr f \<Rightarrow>
                case BigNumber_from (tx_maxPriorityFeePerGas txRequest) of Inl e \<Rightarrow> Inl e
                | Inr p \<Rightarrow>
                    Inr (normalized\<lparr>j_type := Val 2, j_maxFeePerGas := Val (toString f),
                                    j_maxPriorityFeePerGas := Val (toString p)\<rparr>))
           else if tx_type txRequest = Val 0 \<or> missing (tx_type txRequest) then
             (if missing (tx_gasPrice txRequest)
              then Inl (Error ''[PAYOUT] Missing gasPrice on legacy tx'')
              else if tx_maxFeePerGas txRequest \<noteq> Undefined
                      \<or> tx_maxPriorityFeePerGas txRequest \<noteq> Undefined
              then Inl (Error ''[PAYOUT] Unexpected EIP-1559 fields on legacy tx'')
              else
                case BigNumber_from (tx_gasPrice txRequest) of Inl e \<Rightarrow> Inl e | Inr p \<Rightarrow>
                  Inr (normalized\<lparr>j_type := Val 0, j_gasPrice := Val (toString p)\<rparr>))
           else Inl (Error ''[PAYOUT] Unsupported tx type''))"

text \<open>
  \<open>deserializeTxRequest\<close> returns \<open>null\<close> for a missing text. The request it builds has
  only the fields it assigns; the others stay \<open>undefined\<close>.
\<close>

definition deserializeTxRequest :: "json_tx option \<Rightarrow> error + tx_request option" where
  "deserializeTxRequest txRequestJson =
     (case txRequestJson of
        None \<Rightarrow> Inr None
      | Some stored \<Rightarrow>
          if missing (j_to stored) then Inl (Error ''[PAYOUT] Missing stored tx field: to'')
          else if missing (j_data stored)
               then Inl (Error ''[PAYOUT] Missing stored tx field: data'')
          else if missing (j_value stored)
               then Inl (Error ''[PAYOUT] Missing stored tx field: value'')
          else if missing (j_nonce stored)
               then Inl (Error ''[PAYOUT] Missing stored tx field: nonce'')
          else if missing (j_gasLimit stored)
               then Inl (Error ''[PAYOUT] Missing stored tx field: gasLimit'')
          else if missing (j_chainId stored)
               then Inl (Error ''[PAYOUT] Missing stored tx field: chainId'')
          else if missing (j_type stored)
               then Inl (Error ''[PAYOUT] Missing stored tx field: type'')
          else
            case BigNumber_from_stored (j_value stored) of Inl e \<Rightarrow> Inl e | Inr v \<Rightarrow>
            case BigNumber_from_stored (j_gasLimit stored) of Inl e \<Rightarrow> Inl e | Inr g \<Rightarrow>
            let txRequest =
                  \<lparr>tx_to = j_to stored, tx_data = j_data stored, tx_value = Val v,
                   tx_nonce = j_nonce stored, tx_gasLimit = Val g,
                   tx_chainId = j_chainId stored, tx_type = j_type stored,
                   tx_gasPrice = Undefined, tx_maxFeePerGas = Undefined,
                   tx_maxPriorityFeePerGas = Undefined\<rparr>
            in if j_type stored = Val 2 then
                 (if j_maxFeePerGas stored = Undefined
                     \<or> j_maxPriorityFeePerGas stored = Undefined
                  then Inl (Error ''[PAYOUT] Missing stored EIP-1559 fee fields'')
                  else if \<not> missing (j_gasPrice stored)
                  then Inl (Error ''[PAYOUT] Unexpected stored gasPrice on EIP-1559 tx'')
                  else
                    case BigNumber_from_stored (j_maxFeePerGas stored) of Inl e \<Rightarrow> Inl e
                    | Inr f \<Rightarrow>
                    case BigNumber_from_stored (j_maxPriorityFeePerGas stored) of
                      Inl e \<Rightarrow> Inl e
                    | Inr p \<Rightarrow>
                        Inr (Some (txRequest\<lparr>tx_maxFeePerGas := Val f,
                                             tx_maxPriorityFeePerGas := Val p\<rparr>)))
               else if j_type stored = Val 0 then
                 (if missing (j_gasPrice stored)
                  then Inl (Error ''[PAYOUT] Missing stored gasPrice on legacy tx'')
                  else if j_maxFeePerGas stored \<noteq> Undefined
                          \<or> j_maxPriorityFeePerGas stored \<noteq> Undefined
                  then Inl (Error ''[PAYOUT] Unexpected stored EIP-1559 fields on legacy tx'')
                  else
                    case BigNumber_from_stored (j_gasPrice stored) of Inl e \<Rightarrow> Inl e
                    | Inr p \<Rightarrow> Inr (Some (txRequest\<lparr>tx_gasPrice := Val p\<rparr>)))
               else Inl (Error ''[PAYOUT] Unsupported stored tx type''))"

section \<open>The persistent store (src/database/index.js)\<close>

record user_row =
  discord_id :: string
  discord_username :: "string option"
  wallet_address :: "string option"
  reputation_weight :: real
  current_streak :: int
  best_streak :: int

record settlement_row =
  st_id :: nat
  st_status :: string
  st_triggered_at :: timestamp
  st_error_message :: "string option"

record trade_row =
  t_id :: nat
  t_settlement_id :: "nat option"
  t_asset :: string
  t_polymarket_market_id :: string
  t_proposal_message_id :: "string option"
  t_clob_order_id :: "string option"
  t_executed_position :: "string option"
  t_pnl :: "real option"
  t_resolution_time :: "timestamp option"
  t_voting_ends_at :: timestamp
  t_status :: string
  t_executed_at :: "timestamp option"
  t_resolved_at :: "timestamp option"

record prediction_row =
  p_id :: nat
  p_user_id :: string
  p_trade_id :: nat
  p_prediction :: string
  p_was_correct :: "bool option"
  p_snapshot_at :: "timestamp option"

record payout_row =
  po_id :: nat
  po_user_id :: string
  po_settlement_id :: "nat option"
  po_amount :: real
  po_status :: string
  po_tx_hash :: "string option"
  po_tx_request :: "json_tx option"
  po_rank :: nat
  po_retry_count :: nat
  po_last_retry_at :: "timestamp option"
  po_error_message :: "string option"

record runtime_state_row =
  emergency_stopped :: int
  last_morning_trade_date :: string
  next_hourly_trade_at :: timestamp
  last_weekly_payout_date :: string

text \<open>
  The database: one list per table in row order, the single optional row of
  \<open>runtime_state\<close>, and the AUTOINCREMENT counters.
\<close>

record store =
  users :: "user_row list"
  settlements :: "settlement_row list"
  trades :: "trade_row list"
  predictions :: "prediction_row list"
  payouts :: "payout_row list"
  runtime_state :: "runtime_state_row option"
  seq_settlements :: nat
  seq_trades :: nat
  seq_predictions :: nat
  seq_payouts :: nat

definition default_runtime_state :: runtime_state_row where
  "default_runtime_state =
     \<lparr>emergency_stopped = 0, last_morning_trade_date = ''1970-01-01'',
      next_hourly_trade_at = 0, last_weekly_payout_date = ''1970-01-01''\<rparr>"

definition empty_store :: store where
  "empty_store =
     \<lparr>users = [], settlements = [], trades = [], predictions = [], payouts = [],
      runtime_state = None, seq_settlements = 0, seq_trades = 0, seq_predictions = 0,
      seq_payouts = 0\<rparr>"

text \<open>
  \<open>initializeDatabase\<close>: every table is created only if it does not exist, and the
  \<open>runtime_state\<close> row is inserted with \<open>INSERT OR IGNORE\<close>, so an existing row stays.
\<close>

definition initializeDatabase :: "store \<Rightarrow> store" where
  "initializeDatabase s =
     (case runtime_state s of
        None \<Rightarrow> s\<lparr>runtime_state := Some default_runtime_state\<rparr>
      | Some _ \<Rightarrow> s)"

text \<open>\<open>ORDER BY key ASC\<close>: a stable insertion sort on the row order.\<close>

fun insert_by :: "('a \<Rightarrow> 'a \<Rightarrow> bool) \<Rightarrow> 'a \<Rightarrow> 'a list \<Rightarrow> 'a list" where
  "insert_by le x [] = [x]"
| "insert_by le x (y # ys) = (if le x y then x # y # ys else y # insert_by le x ys)"

definition order_by :: "('a \<Rightarrow> 'a \<Rightarrow> bool) \<Rightarrow> 'a list \<Rightarrow> 'a list" where
  "order_by le xs = foldr (insert_by le) xs []"

text \<open>SQLite orders \<open>NULL\<close> before every value.\<close>

definition null_first_le :: "int option \<Rightarrow> int option \<Rightarrow> bool" where
  "null_first_le a b =
     (case a of None \<Rightarrow> True | Some x \<Rightarrow> (case b of None \<Rightarrow> False | Some y \<Rightarrow> x \<le> y))"

subsection \<open>users\<close>

definition users_get :: "store \<Rightarrow> string \<Rightarrow> user_row option" where
  "users_get s discordId = find (\<lambda>u. discord_id u = discordId) (users s)"

definition users_create :: "string \<Rightarrow> string \<Rightarrow> store \<Rightarrow> user_row \<times> store" where
  "users_create discordId username s =
     (let row = \<lparr>discord_id = discordId,
                 discord_username = (if username = [] then None else Some username),
                 wallet_address = None, reputation_weight = 1 / 10,
                 current_streak = 0, best_streak = 0\<rparr>
      in (row, s\<lparr>users := users s @ [row]\<rparr>))"

definition users_getOrCreate :: "string \<Rightarrow> string \<Rightarrow> store \<Rightarrow> user_row \<times> store" where
  "users_getOrCreate discordId username s =
     (case users_get s discordId of
        Some existing \<Rightarrow>
          (if username \<noteq> [] \<and> discord_username existing \<noteq> Some username
           then (existing\<lparr>discord_username := Some username\<rparr>,
                 s\<lparr>users := map (\<lambda>u. if discord_id u = discordId
                                      then u\<lparr>discord_username := Some username\<rparr> else u)
                                (users s)\<rparr>)
           else (existing, s))
      | None \<Rightarrow> users_create discordId username s)"

definition users_updateReputationWeight :: "string \<Rightarrow> real \<Rightarrow> store \<Rightarrow> store" where
  "users_updateReputationWeight discordId weight s =
     s\<lparr>users := map (\<lambda>u. if discord_id u = discordId
                          then u\<lparr>reputation_weight := weight\<rparr> else u) (users s)\<rparr>"

definition users_updateStreak :: "string \<Rightarrow> int \<Rightarrow> int \<Rightarrow> store \<Rightarrow> store" where
  "users_updateStreak discordId current best s =
     s\<lparr>users := map (\<lambda>u. if discord_id u = discordId
                          then u\<lparr>current_streak := current, best_streak := best\<rparr> else u)
                    (users s)\<rparr>"

text \<open>
  \<open>getTopPredictorsForTrades\<close>: users holding a wallet who have a snapshotted prediction
  on one of the trades, ordered by correct count (descending), reputation weight
  (descending), total count (descending) and id (ascending, bytewise), cut at the limit.
\<close>

record predictor =
  pr_user :: user_row
  pr_correct_count :: nat
  pr_total_count :: nat

fun text_le :: "string \<Rightarrow> string \<Rightarrow> bool" where
  "text_le [] ys = True"
| "text_le (x # xs) [] = False"
| "text_le (x # xs) (y # ys) =
     ((of_char x :: nat) < of_char y \<or> ((of_char x :: nat) = of_char y \<and> text_le xs ys))"

definition predictor_le :: "predictor \<Rightarrow> predictor \<Rightarrow> bool" where
  "predictor_le a b =
     (if pr_correct_count a \<noteq> pr_correct_count b then pr_correct_count b < pr_correct_count a
      else if reputation_weight (pr_user a) \<noteq> reputation_weight (pr_user b)
           then reputation_weight (pr_user b) < reputation_weight (pr_user a)
      else if pr_total_count a \<noteq> pr_total_count b then pr_total_count b < pr_total_count a
      else text_le (discord_id (pr_user a)) (discord_id (pr_user b)))"

definition users_getTopPredictorsForTrades :: "store \<Rightarrow> nat list \<Rightarrow> nat \<Rightarrow> predictor list" where
  "users_getTopPredictorsForTrades s tradeIds limit =
     (if tradeIds = [] then []
      else
        let joined = (\<lambda>u. filter (\<lambda>p. p_user_id p = discord_id u \<and> p_trade_id p \<in> set tradeIds
                                      \<and> p_snapshot_at p \<noteq> None) (predictions s));
            groups = filter (\<lambda>u. wallet_address u \<noteq> None \<and> joined u \<noteq> []) (users s);
            rows = map (\<lambda>u. \<lparr>pr_user = u,
                              pr_correct_count =
                                length (filter (\<lambda>p. p_was_correct p = Some True) (joined u)),
                              pr_total_count = length (joined u)\<rparr>) groups
        in take limit (order_by predictor_le rows))"

subsection \<open>trades\<close>

record trade_params =
  tp_asset :: string
  tp_polymarket_market_id :: "string option"
  tp_resolution_time :: "timestamp option"
  tp_voting_ends_at :: "timestamp option"

definition is_active :: "trade_row \<Rightarrow> bool" where
  "is_active t = (t_status t = ''voting'' \<or> t_status t = ''executed'')"

definition trades_getActive :: "store \<Rightarrow> trade_row option" where
  "trades_getActive s = find is_active (trades s)"

definition settlements_getIncomplete :: "store \<Rightarrow> settlement_row list" where
  "settlements_getIncomplete s =
     order_by (\<lambda>a b. st_triggered_at a \<le> st_triggered_at b)
       (filter (\<lambda>x. st_status x \<noteq> ''completed'') (settlements s))"

text \<open>
  \<open>createIfNoActive\<close> is one transaction: it returns \<open>null\<close> when a trade is active or a
  settlement is incomplete, and inserts the row otherwise. The columns
  \<open>polymarket_market_id\<close> and \<open>voting_ends_at\<close> are \<open>NOT NULL\<close>: the insert throws on a
  missing value and the transaction rolls back.
\<close>

definition trades_createIfNoActive ::
  "trade_params \<Rightarrow> store \<Rightarrow> error + (trade_row option \<times> store)" where
  "trades_createIfNoActive params s =
     (if find is_active (trades s) \<noteq> None then Inr (None, s)
      else if find (\<lambda>x. st_status x \<noteq> ''completed'') (settlements s) \<noteq> None then Inr (None, s)
      else if \<not> truthy (tp_polymarket_market_id params) \<or> tp_voting_ends_at params = None
           then Inl (Error ''NOT NULL constraint failed'')
      else
        let row = \<lparr>t_id = Suc (seq_trades s), t_settlement_id = None,
                   t_asset = tp_asset params,
                   t_polymarket_market_id = the (tp_polymarket_market_id params),
                   t_proposal_message_id = None, t_clob_order_id = None,
                   t_executed_position = None, t_pnl = None,
                   t_resolution_time = tp_resolution_time params,
                   t_voting_ends_at = the (tp_voting_ends_at params),
                   t_status = ''voting'', t_executed_at = None, t_resolved_at = None\<rparr>
        in Inr (Some row, s\<lparr>trades := trades s @ [row], seq_trades := Suc (seq_trades s)\<rparr>))"

definition trades_getById :: "store \<Rightarrow> nat \<Rightarrow> trade_row option" where
  "trades_getById s tid = find (\<lambda>t. t_id t = tid) (trades s)"

definition trades_getLastResolved :: "store \<Rightarrow> trade_row option" where
  "trades_getLastResolved s =
     (case order_by (\<lambda>a b. null_first_le (t_resolved_at b) (t_resolved_at a))
             (filter (\<lambda>t. t_status t = ''resolved'') (trades s)) of
        [] \<Rightarrow> None | t # _ \<Rightarrow> Some t)"

definition trades_updateMessageId :: "nat \<Rightarrow> string \<Rightarrow> store \<Rightarrow> store" where
  "trades_updateMessageId tid messageId s =
     s\<lparr>trades := map (\<lambda>t. if t_id t = tid then t\<lparr>t_proposal_message_id := Some messageId\<rparr>
                           else t) (trades s)\<rparr>"

definition trades_getVotingTrades :: "store \<Rightarrow> trade_row list" where
  "trades_getVotingTrades s =
     order_by (\<lambda>a b. t_voting_ends_at a \<le> t_voting_ends_at b)
       (filter (\<lambda>t. t_status t = ''voting'') (trades s))"

definition trades_updateOrderId :: "nat \<Rightarrow> string option \<Rightarrow> store \<Rightarrow> store" where
  "trades_updateOrderId tid orderId s =
     s\<lparr>trades := map (\<lambda>t. if t_id t = tid then t\<lparr>t_clob_order_id := orderId\<rparr> else t)
                     (trades s)\<rparr>"

definition trades_execute :: "nat \<Rightarrow> string \<Rightarrow> timestamp \<Rightarrow> store \<Rightarrow> store" where
  "trades_execute tid position now s =
     s\<lparr>trades := map (\<lambda>t. if t_id t = tid
                           then t\<lparr>t_executed_position := Some position,
                                  t_status := ''executed'', t_executed_at := Some now\<rparr>
                           else t) (trades s)\<rparr>"

definition trades_resolve :: "nat \<Rightarrow> real \<Rightarrow> timestamp \<Rightarrow> store \<Rightarrow> store" where
  "trades_resolve tid pnl now s =
     s\<lparr>trades := map (\<lambda>t. if t_id t = tid
                           then t\<lparr>t_pnl := Some pnl, t_status := ''resolved'',
                                  t_resolved_at := Some now\<rparr>
                           else t) (trades s)\<rparr>"

text \<open>
  \<open>getReadyForResolution\<close> compares with SQLite's \<open>datetime\<close>, which drops the
  milliseconds.
\<close>

definition trades_getReadyForResolution :: "store \<Rightarrow> timestamp \<Rightarrow> trade_row list" where
  "trades_getReadyForResolution s now =
     order_by (\<lambda>a b. null_first_le (t_resolution_time a) (t_resolution_time b))
       (filter (\<lambda>t. t_status t = ''executed'' \<and>
                     (case t_resolution_time t of None \<Rightarrow> False
                      | Some r \<Rightarrow> r div 1000 \<le> now div 1000)) (trades s))"

definition unsettled :: "trade_row \<Rightarrow> bool" where
  "unsettled t = (t_status t = ''resolved'' \<and> t_settlement_id t = None)"

text \<open>\<open>SUM(pnl)\<close> skips \<open>NULL\<close>; \<open>COALESCE\<close> makes the empty sum 0.\<close>

definition trades_getUnsettledPnl :: "store \<Rightarrow> real" where
  "trades_getUnsettledPnl s =
     sum_list (map (\<lambda>t. case t_pnl t of None \<Rightarrow> 0 | Some v \<Rightarrow> v) (filter unsettled (trades s)))"

definition trades_getUnsettledTrades :: "store \<Rightarrow> trade_row list" where
  "trades_getUnsettledTrades s =
     order_by (\<lambda>a b. null_first_le (t_resolved_at a) (t_resolved_at b))
       (filter unsettled (trades s))"

definition trades_linkToSettlement :: "nat list \<Rightarrow> nat \<Rightarrow> store \<Rightarrow> store" where
  "trades_linkToSettlement tradeIds settlementId s =
     (if tradeIds = [] then s
      else s\<lparr>trades := map (\<lambda>t. if t_id t \<in> set tradeIds
                                then t\<lparr>t_settlement_id := Some settlementId\<rparr> else t)
                          (trades s)\<rparr>)"

definition trades_deleteTrade :: "nat \<Rightarrow> store \<Rightarrow> store" where
  "trades_deleteTrade tid s =
     s\<lparr>predictions := filter (\<lambda>p. p_trade_id p \<noteq> tid) (predictions s),
       trades := filter (\<lambda>t. t_id t \<noteq> tid) (trades s)\<rparr>"

subsection \<open>predictions\<close>

definition predictions_upsertWithSnapshot ::
  "string \<Rightarrow> nat \<Rightarrow> string \<Rightarrow> timestamp \<Rightarrow> store \<Rightarrow> store" where
  "predictions_upsertWithSnapshot userId tradeId prediction snapshotAt s =
     (if \<exists>p \<in> set (predictions s). p_user_id p = userId \<and> p_trade_id p = tradeId
      then s\<lparr>predictions := map (\<lambda>p. if p_user_id p = userId \<and> p_trade_id p = tradeId
                                       then p\<lparr>p_prediction := prediction,
                                              p_snapshot_at := Some snapshotAt\<rparr>
                                       else p) (predictions s)\<rparr>
      else s\<lparr>predictions := predictions s @
                 [\<lparr>p_id = Suc (seq_predictions s), p_user_id = userId, p_trade_id = tradeId,
                   p_prediction = prediction, p_was_correct = None,
                   p_snapshot_at = Some snapshotAt\<rparr>],
              seq_predictions := Suc (seq_predictions s)\<rparr>)"

definition snapshotted :: "nat \<Rightarrow> prediction_row \<Rightarrow> bool" where
  "snapshotted tradeId p = (p_trade_id p = tradeId \<and> p_snapshot_at p \<noteq> None)"

definition predictions_getVoteCounts :: "store \<Rightarrow> nat \<Rightarrow> nat \<times> nat" where
  "predictions_getVoteCounts s tradeId =
     (let rows = filter (snapshotted tradeId) (predictions s)
      in (length (filter (\<lambda>p. p_prediction p = ''UP'') rows),
          length (filter (\<lambda>p. p_prediction p = ''DOWN'') rows)))"

definition predictions_getSnapshottedByTrade :: "store \<Rightarrow> nat \<Rightarrow> prediction_row list" where
  "predictions_getSnapshottedByTrade s tradeId = filter (snapshotted tradeId) (predictions s)"

definition predictions_markCorrectness :: "nat \<Rightarrow> string \<Rightarrow> store \<Rightarrow> store" where
  "predictions_markCorrectness tradeId correctPosition s =
     s\<lparr>predictions := map (\<lambda>p. if snapshotted tradeId p
                                then p\<lparr>p_was_correct := Some (p_prediction p = correctPosition)\<rparr>
                                else p) (predictions s)\<rparr>"

definition predictions_deleteNonSnapshotted :: "nat \<Rightarrow> store \<Rightarrow> store" where
  "predictions_deleteNonSnapshotted tradeId s =
     s\<lparr>predictions := filter (\<lambda>p. \<not> (p_trade_id p = tradeId \<and> p_snapshot_at p = None))
                          (predictions s)\<rparr>"

subsection \<open>payouts\<close>

definition payouts_create :: "string \<Rightarrow> real \<Rightarrow> nat \<Rightarrow> nat option \<Rightarrow> store \<Rightarrow> store" where
  "payouts_create userId amt rnk settlementId s =
     s\<lparr>payouts := payouts s @
          [\<lparr>po_id = Suc (seq_payouts s), po_user_id = userId, po_settlement_id = settlementId,
            po_amount = amt, po_status = ''pending'', po_tx_hash = None, po_tx_request = None,
            po_rank = rnk, po_retry_count = 0, po_last_retry_at = None,
            po_error_message = None\<rparr>],
       seq_payouts := Suc (seq_payouts s)\<rparr>"

definition payouts_updateStatus :: "nat \<Rightarrow> string \<Rightarrow> store \<Rightarrow> store" where
  "payouts_updateStatus pid status s =
     s\<lparr>payouts := map (\<lambda>p. if po_id p = pid then p\<lparr>po_status := status\<rparr> else p) (payouts s)\<rparr>"

definition payouts_updateTxHash :: "nat \<Rightarrow> string option \<Rightarrow> store \<Rightarrow> store" where
  "payouts_updateTxHash pid txHash s =
     s\<lparr>payouts := map (\<lambda>p. if po_id p = pid then p\<lparr>po_tx_hash := txHash\<rparr> else p) (payouts s)\<rparr>"

definition payouts_updateTxRequest :: "nat \<Rightarrow> json_tx option \<Rightarrow> store \<Rightarrow> store" where
  "payouts_updateTxRequest pid txRequest s =
     s\<lparr>payouts := map (\<lambda>p. if po_id p = pid then p\<lparr>po_tx_request := txRequest\<rparr> else p)
                      (payouts s)\<rparr>"

definition payouts_getById :: "store \<Rightarrow> nat \<Rightarrow> payout_row option" where
  "payouts_getById s pid = find (\<lambda>p. po_id p = pid) (payouts s)"

definition payouts_getBySettlement :: "store \<Rightarrow> nat \<Rightarrow> payout_row list" where
  "payouts_getBySettlement s settlementId =
     filter (\<lambda>p. po_settlement_id p = Some settlementId) (payouts s)"

definition payouts_getFailedBySettlement :: "store \<Rightarrow> nat \<Rightarrow> payout_row list" where
  "payouts_getFailedBySettlement s settlementId =
     filter (\<lambda>p. po_settlement_id p = Some settlementId \<and> po_status p = ''failed'') (payouts s)"

definition payouts_incrementRetry :: "nat \<Rightarrow> string \<Rightarrow> timestamp \<Rightarrow> store \<Rightarrow> store" where
  "payouts_incrementRetry pid errorMessage now s =
     s\<lparr>payouts := map (\<lambda>p. if po_id p = pid
                            then p\<lparr>po_retry_count := po_retry_count p + 1,
                                   po_last_retry_at := Some now,
                                   po_error_message := Some errorMessage\<rparr>
                            else p) (payouts s)\<rparr>"

subsection \<open>settlements\<close>

definition settlements_create :: "timestamp \<Rightarrow> store \<Rightarrow> settlement_row \<times> store" where
  "settlements_create now s =
     (let row = \<lparr>st_id = Suc (seq_settlements s), st_status = ''pending'',
                 st_triggered_at = now, st_error_message = None\<rparr>
      in (row, s\<lparr>settlements := settlements s @ [row],
                 seq_settlements := Suc (seq_settlements s)\<rparr>))"

definition settlements_getById :: "store \<Rightarrow> nat \<Rightarrow> settlement_row option" where
  "settlements_getById s sid = find (\<lambda>x. st_id x = sid) (settlements s)"

definition settlements_updateStatus :: "nat \<Rightarrow> string \<Rightarrow> string option \<Rightarrow> store \<Rightarrow> store" where
  "settlements_updateStatus sid status errorMessage s =
     s\<lparr>settlements := map (\<lambda>x. if st_id x = sid
                                then x\<lparr>st_status := status, st_error_message := errorMessage\<rparr>
                                else x) (settlements s)\<rparr>"

subsection \<open>runtimeState\<close>

definition runtimeState_getEmergencyStopped :: "store \<Rightarrow> bool" where
  "runtimeState_getEmergencyStopped s =
     (case runtime_state s of None \<Rightarrow> False | Some row \<Rightarrow> emergency_stopped row = 1)"

text \<open>An upsert: the row is inserted (other columns at their defaults) when it is missing.\<close>

definition runtimeState_setEmergencyStopped :: "bool \<Rightarrow> store \<Rightarrow> store" where
  "runtimeState_setEmergencyStopped stopped s =
     (let v = (if stopped then 1 else 0)
      in case runtime_state s of
           None \<Rightarrow> s\<lparr>runtime_state := Some (default_runtime_state\<lparr>emergency_stopped := v\<rparr>)\<rparr>
         | Some row \<Rightarrow> s\<lparr>runtime_state := Some (row\<lparr>emergency_stopped := v\<rparr>)\<rparr>)"

definition runtimeState_getScheduleState :: "store \<Rightarrow> runtime_state_row option" where
  "runtimeState_getScheduleState s = runtime_state s"

definition runtimeState_setLastMorningTradeDate :: "string \<Rightarrow> store \<Rightarrow> store" where
  "runtimeState_setLastMorningTradeDate dateStr s =
     s\<lparr>runtime_state := map_option (\<lambda>row. row\<lparr>last_morning_trade_date := dateStr\<rparr>)
                            (runtime_state s)\<rparr>"

definition runtimeState_setNextHourlyTradeAt :: "timestamp \<Rightarrow> store \<Rightarrow> store" where
  "runtimeState_setNextHourlyTradeAt ts s =
     s\<lparr>runtime_state := map_option (\<lambda>row. row\<lparr>next_hourly_trade_at := ts\<rparr>)
                            (runtime_state s)\<rparr>"

definition runtimeState_setLastWeeklyPayoutDate :: "string \<Rightarrow> store \<Rightarrow> store" where
  "runtimeState_setLastWeeklyPayoutDate dateStr s =
     s\<lparr>runtime_state := map_option (\<lambda>row. row\<lparr>last_weekly_payout_date := dateStr\<rparr>)
                            (runtime_state s)\<rparr>"

section \<open>Payout amounts (src/services/payouts.js)\<close>

definition MAX_PAYOUT_RETRIES :: nat where
  "MAX_PAYOUT_RETRIES = 5"

definition RETRY_DELAYS_MS :: "int list" where
  "RETRY_DELAYS_MS = [60000, 120000, 240000, 480000, 960000]"

text \<open>
  The loop of \<open>calculatePayoutAmounts\<close> over the active weights: it pushes the floored
  cents of each tier and adds them to \<open>allocated\<close>.
\<close>

fun allocate :: "int \<Rightarrow> real \<Rightarrow> real list \<Rightarrow> int list \<times> int \<Rightarrow> int list \<times> int" where
  "allocate totalCents weightSum [] acc = acc"
| "allocate totalCents weightSum (weight # rest) (amounts, allocated) =
     (let cents = Math_floor ((of_int totalCents * weight) / weightSum)
      in allocate totalCents weightSum rest (amounts @ [cents], allocated + cents))"

definition calculatePayoutAmounts :: "real \<Rightarrow> distribution \<Rightarrow> nat \<Rightarrow> real list" where
  "calculatePayoutAmounts totalPayout distr winnerCount =
     (if winnerCount = 0 then []
      else
        let weights = [dist_first distr, dist_second distr, dist_third distr];
            activeWeights = take winnerCount weights;
            weightSum = foldl (+) 0 activeWeights
        in if weightSum \<le> 0 then []
           else
             let totalCents = Math_round (totalPayout * 100);
                 (amounts, allocated) = allocate totalCents weightSum activeWeights ([], 0);
                 remainder = totalCents - allocated;
                 amounts' = (if remainder \<noteq> 0 then amounts[0 := amounts ! 0 + remainder]
                             else amounts)
             in map (\<lambda>cents. of_int cents / 100) amounts')"

definition floorToCents :: "real \<Rightarrow> real" where
  "floorToCents amt = of_int (Math_floor (amt * 100)) / 100"


section \<open>Sending payouts (src/services/payouts.js)\<close>

text \<open>
  An awaited call to an external collaborator resolves to a value or rejects with a
  message. An asynchronous function of the program is run to completion in program order;
  it returns, or throws after the store changes it has already made.
\<close>

datatype 'a awaited = Resolved 'a | Rejected string

datatype completion = Returned | Thrown

text \<open>The fields the \<open>catch\<close> block of \<open>sendUsdcPayout\<close> reads from a thrown error.\<close>

record thrown_error =
  err_message :: string
  err_receipt_status :: "int option"
  err_tx_hash :: "string option"

definition plain_error :: "string \<Rightarrow> thrown_error" where
  "plain_error m = \<lparr>err_message = m, err_receipt_status = None, err_tx_hash = None\<rparr>"

text \<open>
  What happens to a signed transaction: \<open>sendTransaction\<close> rejects; or it returns a
  transaction (with its hash) and \<open>wait\<close> rejects; or \<open>wait\<close> returns a receipt (its
  status and transaction hash).
\<close>

datatype broadcast =
    SendRejects thrown_error
  | WaitRejects "string option" thrown_error
  | WaitReturns "string option" "int option" "string option"

datatype receipt_lookup =
    ReceiptStatus int
  | NoReceiptTxKnown
  | NoReceiptTxUnknown
  | LookupRejects string

text \<open>
  The chain and the wallet as one payout sees them. \<open>ch_signTransaction\<close> gives the
  keccak hash of the signed raw transaction.
\<close>

record chain_env =
  ch_isTestMode :: bool
  ch_wallet :: bool
  ch_checkGasBalance :: "bool awaited"
  ch_balance_sufficient :: "bool awaited"
  ch_populateTransaction :: "string \<Rightarrow> real \<Rightarrow> tx_request awaited"
  ch_getNetwork_chainId :: "int awaited"
  ch_signTransaction :: "tx_request \<Rightarrow> string awaited"
  ch_broadcast :: "tx_request \<Rightarrow> broadcast"
  ch_lookup :: "string \<Rightarrow> receipt_lookup"

text \<open>
  The object \<open>sendUsdcPayout\<close> returns. \<open>sr_signed\<close> is not a field of that object: it
  records the request that was handed to \<open>signTransaction\<close>.
\<close>

record send_result =
  sr_success :: bool
  sr_error :: "string option"
  sr_txHash :: "string option"
  sr_failed :: bool
  sr_pending :: bool
  sr_signed :: "tx_request option"

definition send_error :: "string \<Rightarrow> send_result" where
  "send_error m =
     \<lparr>sr_success = False, sr_error = Some m, sr_txHash = None, sr_failed = False,
      sr_pending = False, sr_signed = None\<rparr>"

definition first_truthy :: "string option \<Rightarrow> string option \<Rightarrow> string option" where
  "first_truthy a b = (if truthy a then a else if truthy b then b else None)"

text \<open>The \<open>catch\<close> block of \<open>sendUsdcPayout\<close>; \<open>txh\<close> is \<open>tx?.hash\<close>.\<close>

definition send_catch ::
  "nat \<Rightarrow> string option \<Rightarrow> thrown_error \<Rightarrow> tx_request option \<Rightarrow> store
     \<Rightarrow> send_result \<times> store" where
  "send_catch payoutId txh err signed s =
     (let txHash = first_truthy (err_tx_hash err) txh;
          s' = (if truthy txHash then payouts_updateTxHash payoutId txHash s else s)
      in if err_receipt_status err = Some 0
         then (\<lparr>sr_success = False, sr_error = Some ''Transaction reverted'',
                sr_txHash = txHash, sr_failed = True, sr_pending = False,
                sr_signed = signed\<rparr>, s')
         else (\<lparr>sr_success = False, sr_error = Some (err_message err), sr_txHash = txHash,
                sr_failed = False, sr_pending = truthy txHash, sr_signed = signed\<rparr>, s'))"

text \<open>
  The tail of \<open>sendUsdcPayout\<close> from \<open>signTransaction\<close> on: the hash is stored before the
  transaction is broadcast.
\<close>

definition sign_and_send ::
  "chain_env \<Rightarrow> nat \<Rightarrow> tx_request \<Rightarrow> store \<Rightarrow> send_result \<times> store" where
  "sign_and_send env payoutId txRequest s =
     (case ch_signTransaction env txRequest of
        Rejected m \<Rightarrow> send_catch payoutId None (plain_error m) (Some txRequest) s
      | Resolved txHash \<Rightarrow>
          let s1 = payouts_updateTxHash payoutId (Some txHash) s
          in case ch_broadcast env txRequest of
               SendRejects err \<Rightarrow> send_catch payoutId None err (Some txRequest) s1
             | WaitRejects txh err \<Rightarrow> send_catch payoutId txh err (Some txRequest) s1
             | WaitReturns txh status receiptHash \<Rightarrow>
                 if status = Some 1
                 then (\<lparr>sr_success = True, sr_error = None,
                        sr_txHash = (if truthy receiptHash then receiptHash
                                     else if truthy txh then txh else Some txHash),
                        sr_failed = False, sr_pending = False,
                        sr_signed = Some txRequest\<rparr>, s1)
                 else (\<lparr>sr_success = False, sr_error = Some ''Transaction reverted'',
                        sr_txHash = (if truthy txh then txh else Some txHash),
                        sr_failed = True, sr_pending = False,
                        sr_signed = Some txRequest\<rparr>, s1))"

text \<open>
  The fresh request: \<open>value\<close>, \<open>type\<close> and \<open>chainId\<close> are filled in when the populated
  request lacks them, and the serialized request is stored before signing.
\<close>

definition fill_type :: "tx_request \<Rightarrow> tx_request" where
  "fill_type txr =
     (if missing (tx_type txr)
      then (if tx_maxFeePerGas txr \<noteq> Undefined \<or> tx_maxPriorityFeePerGas txr \<noteq> Undefined
            then txr\<lparr>tx_type := Val 2\<rparr>
            else if tx_gasPrice txr \<noteq> Undefined then txr\<lparr>tx_type := Val 0\<rparr>
            else txr)
      else txr)"

definition store_and_send ::
  "chain_env \<Rightarrow> nat \<Rightarrow> tx_request \<Rightarrow> store \<Rightarrow> send_result \<times> store" where
  "store_and_send env payoutId txRequest s =
     (case serializeTxRequest txRequest of
        Inl (Error m) \<Rightarrow> send_catch payoutId None (plain_error m) None s
      | Inr j \<Rightarrow> sign_and_send env payoutId txRequest (payouts_updateTxRequest payoutId (Some j) s))"

definition sendUsdcPayout ::
  "chain_env \<Rightarrow> nat \<Rightarrow> string option \<Rightarrow> real \<Rightarrow> json_tx option \<Rightarrow> store
     \<Rightarrow> send_result \<times> store" where
  "sendUsdcPayout env payoutId recipientAddress amountUsd txRequestJson s =
     (if ch_isTestMode env
      then (\<lparr>sr_success = True, sr_error = None, sr_txHash = None, sr_failed = False,
             sr_pending = False, sr_signed = None\<rparr>, s)
      else if \<not> ch_wallet env then (send_error ''Wallet not configured'', s)
      else
        case ch_checkGasBalance env of
          Rejected m \<Rightarrow> send_catch payoutId None (plain_error m) None s
        | Resolved gas \<Rightarrow>
        if \<not> gas then (send_error ''Insufficient MATIC for gas'', s)
        else
        case ch_balance_sufficient env of
          Rejected m \<Rightarrow> send_catch payoutId None (plain_error m) None s
        | Resolved enough \<Rightarrow>
        if \<not> enough then (send_error ''Insufficient USDC balance'', s)
        else
        case deserializeTxRequest txRequestJson of
          Inl (Error m) \<Rightarrow> send_catch payoutId None (plain_error m) None s
        | Inr (Some txRequest) \<Rightarrow> sign_and_send env payoutId txRequest s
        | Inr None \<Rightarrow>
            if \<not> truthy recipientAddress then (send_error ''Missing recipient address'', s)
            else
              case ch_populateTransaction env (the recipientAddress) amountUsd of
                Rejected m \<Rightarrow> send_catch payoutId None (plain_error m) None s
              | Resolved populated \<Rightarrow>
                  let tx1 = (if missing (tx_value populated) then populated\<lparr>tx_value := Val 0\<rparr>
                             else populated);
                      tx2 = fill_type tx1
                  in if missing (tx_chainId tx2)
                     then (case ch_getNetwork_chainId env of
                             Rejected m \<Rightarrow> send_catch payoutId None (plain_error m) None s
                           | Resolved c \<Rightarrow>
                               store_and_send env payoutId (tx2\<lparr>tx_chainId := Val c\<rparr>) s)
                     else store_and_send env payoutId tx2 s)"

datatype tx_status = TxNone | TxPending | TxMissing | TxSent | TxFailed

definition reconcilePayoutTx ::
  "chain_env \<Rightarrow> timestamp \<Rightarrow> payout_row \<Rightarrow> store \<Rightarrow> tx_status \<times> store" where
  "reconcilePayoutTx env now payout s =
     (if \<not> truthy (po_tx_hash payout) then (TxNone, s)
      else
        case ch_lookup env (the (po_tx_hash payout)) of
          LookupRejects m \<Rightarrow> (TxPending, s)
        | NoReceiptTxKnown \<Rightarrow> (TxPending, s)
        | NoReceiptTxUnknown \<Rightarrow> (TxMissing, s)
        | ReceiptStatus st \<Rightarrow>
            if st = 1 then (TxSent, payouts_updateStatus (po_id payout) ''sent'' s)
            else (TxFailed,
                  payouts_updateTxRequest (po_id payout) None
                    (payouts_updateTxHash (po_id payout) None
                      (payouts_incrementRetry (po_id payout) ''Transaction reverted'' now
                        (payouts_updateStatus (po_id payout) ''failed'' s)))))"

record payout_result =
  res_success :: bool
  res_pending :: bool
  res_alreadySent :: bool
  res_attempted :: bool
  res_user :: "user_row option"

definition payout_res :: "bool \<Rightarrow> bool \<Rightarrow> bool \<Rightarrow> bool \<Rightarrow> user_row option \<Rightarrow> payout_result" where
  "payout_res success pending alreadySent attempted user =
     \<lparr>res_success = success, res_pending = pending, res_alreadySent = alreadySent,
      res_attempted = attempted, res_user = user\<rparr>"

definition or_unknown :: "string option \<Rightarrow> string" where
  "or_unknown e = (if truthy e then the e else ''Unknown error'')"

definition processPayout ::
  "chain_env \<Rightarrow> timestamp \<Rightarrow> payout_row \<Rightarrow> store \<Rightarrow> payout_result \<times> store" where
  "processPayout env now payout s =
     (if po_status payout = ''sent'' then (payout_res True False True False None, s)
      else
        case reconcilePayoutTx env now payout s of
          (TxSent, s1) \<Rightarrow> (payout_res True False True False None, s1)
        | (TxPending, s1) \<Rightarrow> (payout_res False True False False None, s1)
        | (TxMissing, s1) \<Rightarrow>
            (if po_tx_request payout \<noteq> None
             then (case sendUsdcPayout env (po_id payout) None (po_amount payout)
                          (po_tx_request payout) s1 of
                     (result, s2) \<Rightarrow>
                       if sr_pending result then (payout_res False True False True None, s2)
                       else if sr_success result
                       then (payout_res True False False True None,
                             payouts_updateStatus (po_id payout) ''sent'' s2)
                       else (payout_res False False False True None,
                             payouts_incrementRetry (po_id payout) (or_unknown (sr_error result))
                               now (payouts_updateStatus (po_id payout) ''failed'' s2)))
             else (payout_res False True False False None, s1))
        | (TxFailed, s1) \<Rightarrow> (payout_res False False False False None, s1)
        | (TxNone, s1) \<Rightarrow>
            let user = users_get s1 (po_user_id payout)
            in if \<not> truthy (case user of None \<Rightarrow> None | Some u \<Rightarrow> wallet_address u)
               then (payout_res False False False False user,
                     payouts_incrementRetry (po_id payout) ''No wallet address'' now
                       (payouts_updateStatus (po_id payout) ''failed'' s1))
               else
                 case sendUsdcPayout env (po_id payout) (wallet_address (the user))
                        (po_amount payout) (po_tx_request payout) s1 of
                   (result, s2) \<Rightarrow>
                     if sr_pending result then (payout_res False True False True user, s2)
                     else if sr_success result
                     then (payout_res True False False True user,
                           payouts_updateStatus (po_id payout) ''sent'' s2)
                     else
                       let s3 = payouts_incrementRetry (po_id payout)
                                  (or_unknown (sr_error result)) now
                                  (payouts_updateStatus (po_id payout) ''failed'' s2);
                           s4 = (if sr_failed result \<and> truthy (sr_txHash result)
                                 then payouts_updateTxRequest (po_id payout) None
                                        (payouts_updateTxHash (po_id payout) None s3)
                                 else s3)
                       in (payout_res False False False True user, s4))"

section \<open>The emergency stop (src/services/scheduler.js)\<close>

definition isEmergencyStopped :: "store \<Rightarrow> bool" where
  "isEmergencyStopped s = runtimeState_getEmergencyStopped s"

definition setEmergencyStop :: "bool \<Rightarrow> store \<Rightarrow> store" where
  "setEmergencyStop stopped s = runtimeState_setEmergencyStopped stopped s"

section \<open>Settlements (src/services/payouts.js)\<close>

text \<open>
  \<open>channel\<close> tells whether a channel was passed; a \<open>channel.send\<close> that rejects makes the
  caller throw.
\<close>

definition triggerPayoutEmergencyStop ::
  "bool \<Rightarrow> bool \<Rightarrow> nat \<Rightarrow> string \<Rightarrow> store \<Rightarrow> completion \<times> store" where
  "triggerPayoutEmergencyStop send_ok channel settlementId reason s =
     (let s1 = settlements_updateStatus settlementId ''failed''
                 (Some (''Emergency stop triggered - '' @ reason)) s;
          s2 = setEmergencyStop True s1
      in (if channel \<and> \<not> send_ok then Thrown else Returned, s2))"

fun process_all ::
  "(nat \<Rightarrow> chain_env) \<Rightarrow> timestamp \<Rightarrow> payout_row list \<Rightarrow> store
     \<Rightarrow> payout_result list \<times> store" where
  "process_all envs now [] s = ([], s)"
| "process_all envs now (payout # rest) s =
     (case processPayout (envs (po_id payout)) now payout s of
        (result, s1) \<Rightarrow>
          (case process_all envs now rest s1 of (results, s2) \<Rightarrow> (result # results, s2)))"

definition executeSettlementPayouts ::
  "(nat \<Rightarrow> chain_env) \<Rightarrow> bool \<Rightarrow> timestamp \<Rightarrow> bool \<Rightarrow> nat \<Rightarrow> store \<Rightarrow> completion \<times> store" where
  "executeSettlementPayouts envs send_ok now channel settlementId s =
     (case settlements_getById s settlementId of
        None \<Rightarrow> (Returned, s)
      | Some settlement \<Rightarrow>
          let settlementPayouts = payouts_getBySettlement s settlementId
          in if settlementPayouts = []
             then triggerPayoutEmergencyStop send_ok channel settlementId
                    ''No payout records for settlement'' s
             else
               case process_all envs now settlementPayouts s of
                 (payoutResults, s1) \<Rightarrow>
                   let allSucceeded = list_all res_success payoutResults;
                       anyFailed = list_ex (\<lambda>r. \<not> res_success r \<and> \<not> res_pending r) payoutResults;
                       anyPending = list_ex res_pending payoutResults;
                       announce = (if channel \<and> \<not> send_ok
                                      \<and> list_ex (\<lambda>r. res_success r \<and> \<not> res_alreadySent r)
                                           payoutResults
                                   then Thrown else Returned)
                   in if allSucceeded
                      then (announce, settlements_updateStatus settlementId ''completed'' None s1)
                      else if anyFailed
                      then (if list_ex (\<lambda>p. po_retry_count p < MAX_PAYOUT_RETRIES)
                                  (payouts_getFailedBySettlement s1 settlementId)
                            then (announce,
                                  settlements_updateStatus settlementId ''failed''
                                    (Some ''Some payouts failed - will retry'') s1)
                            else triggerPayoutEmergencyStop send_ok channel settlementId
                                   ''All payout retries exhausted''
                                   (settlements_updateStatus settlementId ''failed''
                                      (Some ''All payout retries exhausted'') s1))
                      else if anyPending
                      then (announce,
                            settlements_updateStatus settlementId ''distributing'' None s1)
                      else (announce, s1))"

text \<open>
  The transaction of \<open>runWeeklyPayouts\<close>: it re-reads the unsettled profit, the unsettled
  trades and the winners, and creates the settlement, its links and its payouts, or
  returns \<open>null\<close> and writes nothing.
\<close>

fun create_payouts :: "predictor list \<Rightarrow> real list \<Rightarrow> nat \<Rightarrow> nat \<Rightarrow> store \<Rightarrow> store" where
  "create_payouts [] payoutAmounts i settlementId s = s"
| "create_payouts (user # rest) payoutAmounts i settlementId s =
     create_payouts rest payoutAmounts (i + 1) settlementId
       (payouts_create (discord_id (pr_user user)) (payoutAmounts ! i) (i + 1)
          (Some settlementId) s)"

definition settlement_transaction ::
  "config \<Rightarrow> timestamp \<Rightarrow> store \<Rightarrow> settlement_row option \<times> store" where
  "settlement_transaction cfg now s =
     (let currentProfit = trades_getUnsettledPnl s
      in if currentProfit \<le> 0 then (None, s)
         else
           let currentTotalPayout = floorToCents (currentProfit * payout_share cfg)
           in if currentTotalPayout < min_payout_usd cfg then (None, s)
              else
                let unsettledTrades = trades_getUnsettledTrades s
                in if unsettledTrades = [] then (None, s)
                   else
                     let tradeIds = map t_id unsettledTrades;
                         winners = users_getTopPredictorsForTrades s tradeIds 3
                     in if winners = [] then (None, s)
                        else
                          let payoutAmounts = calculatePayoutAmounts currentTotalPayout
                                                (payout_distribution cfg) (length winners)
                          in if payoutAmounts = [] then (None, s)
                             else
                               case settlements_create now s of
                                 (settlement, s1) \<Rightarrow>
                                   let s2 = settlements_updateStatus (st_id settlement)
                                              ''distributing'' None s1;
                                       s3 = trades_linkToSettlement tradeIds
                                              (st_id settlement) s2;
                                       s4 = create_payouts winners payoutAmounts 0
                                              (st_id settlement) s3
                                   in (Some settlement, s4))"

definition runWeeklyPayouts ::
  "config \<Rightarrow> (nat \<Rightarrow> chain_env) \<Rightarrow> bool \<Rightarrow> timestamp \<Rightarrow> bool \<Rightarrow> store \<Rightarrow> completion \<times> store" where
  "runWeeklyPayouts cfg envs send_ok now channel s =
     (let profitSinceLastPayout = trades_getUnsettledPnl s
      in if profitSinceLastPayout \<le> 0 then (Returned, s)
         else if floorToCents (profitSinceLastPayout * payout_share cfg) < min_payout_usd cfg
         then (Returned, s)
         else
           case settlement_transaction cfg now s of
             (None, s1) \<Rightarrow> (Returned, s1)
           | (Some settlement, s1) \<Rightarrow>
               executeSettlementPayouts envs send_ok now channel (st_id settlement) s1)"

text \<open>
  The retry pass over the incomplete settlements. A payout is retried once its backoff
  delay has passed since its last retry.
\<close>

definition retry_delay :: "nat \<Rightarrow> int" where
  "retry_delay retryCount = RETRY_DELAYS_MS ! (min retryCount (length RETRY_DELAYS_MS - 1))"

fun retry_payouts ::
  "(nat \<Rightarrow> chain_env) \<Rightarrow> bool \<Rightarrow> timestamp \<Rightarrow> bool \<Rightarrow> payout_row list \<Rightarrow> store
     \<Rightarrow> completion \<times> store" where
  "retry_payouts envs send_ok now channel [] s = (Returned, s)"
| "retry_payouts envs send_ok now channel (payout # rest) s =
     (let delay = retry_delay (po_retry_count payout);
          lastRetry = (case po_last_retry_at payout of None \<Rightarrow> 0 | Some t \<Rightarrow> t)
      in if now - lastRetry < delay then retry_payouts envs send_ok now channel rest s
         else
           case processPayout (envs (po_id payout)) now payout s of
             (result, s1) \<Rightarrow>
               if res_success result \<and> \<not> res_alreadySent result
               then (if channel \<and> \<not> send_ok then (Thrown, s1)
                     else retry_payouts envs send_ok now channel rest s1)
               else if res_attempted result \<and> \<not> res_success result \<and> \<not> res_pending result
               then (case payouts_getById s1 (po_id payout) of
                       None \<Rightarrow> (Thrown, s1)
                     | Some updated \<Rightarrow> retry_payouts envs send_ok now channel rest s1)
               else retry_payouts envs send_ok now channel rest s1)"

definition retry_settlement ::
  "(nat \<Rightarrow> chain_env) \<Rightarrow> bool \<Rightarrow> timestamp \<Rightarrow> bool \<Rightarrow> settlement_row \<Rightarrow> store
     \<Rightarrow> completion \<times> store" where
  "retry_settlement envs send_ok now channel settlement s =
     (let settlementPayouts = payouts_getBySettlement s (st_id settlement)
      in if settlementPayouts = []
         then triggerPayoutEmergencyStop send_ok channel (st_id settlement)
                ''No payout records for settlement'' s
         else
           let pendingOrFailed = filter (\<lambda>p. po_status p \<noteq> ''sent'') settlementPayouts
           in if pendingOrFailed = []
              then (Returned, settlements_updateStatus (st_id settlement) ''completed'' None s)
              else
                let retryablePayouts =
                      filter (\<lambda>p. po_retry_count p < MAX_PAYOUT_RETRIES) pendingOrFailed
                in if retryablePayouts = []
                   then triggerPayoutEmergencyStop send_ok channel (st_id settlement)
                          ''All payout retries exhausted'' s
                   else
                     case retry_payouts envs send_ok now channel retryablePayouts s of
                       (Thrown, s1) \<Rightarrow> (Thrown, s1)
                     | (Returned, s1) \<Rightarrow>
                         let remainingUnsent =
                               filter (\<lambda>p. po_status p \<noteq> ''sent'')
                                 (payouts_getBySettlement s1 (st_id settlement))
                         in if remainingUnsent = []
                            then (Returned,
                                  settlements_updateStatus (st_id settlement) ''completed''
                                    None s1)
                            else if list_all (\<lambda>p. MAX_PAYOUT_RETRIES \<le> po_retry_count p)
                                      remainingUnsent
                            then triggerPayoutEmergencyStop send_ok channel (st_id settlement)
                                   ''All payout retries exhausted'' s1
                            else (Returned, s1))"

fun retry_settlements ::
  "(nat \<Rightarrow> chain_env) \<Rightarrow> (nat \<Rightarrow> bool) \<Rightarrow> timestamp \<Rightarrow> bool \<Rightarrow> settlement_row list \<Rightarrow> store
     \<Rightarrow> completion \<times> store" where
  "retry_settlements envs send_ok now channel [] s = (Returned, s)"
| "retry_settlements envs send_ok now channel (settlement # rest) s =
     (case retry_settlement envs (send_ok (st_id settlement)) now channel settlement s of
        (Thrown, s1) \<Rightarrow> (Thrown, s1)
      | (Returned, s1) \<Rightarrow> retry_settlements envs send_ok now channel rest s1)"

definition retryFailedSettlements ::
  "(nat \<Rightarrow> chain_env) \<Rightarrow> (nat \<Rightarrow> bool) \<Rightarrow> timestamp \<Rightarrow> bool \<Rightarrow> store \<Rightarrow> completion \<times> store" where
  "retryFailedSettlements envs send_ok now channel s =
     retry_settlements envs send_ok now channel (settlements_getIncomplete s) s"

section \<open>The trade lifecycle (src/services/scheduler.js)\<close>

text \<open>
  A reading of the clock: the instant, and its rendering in the configured timezone
  (\<open>getTimeInTimezone\<close>, \<open>getDateInTimezone\<close> and the short weekday name).
\<close>

record clock =
  clk_ms :: timestamp
  clk_hour :: int
  clk_minute :: int
  clk_date :: string
  clk_weekday :: string

record start_check =
  allowed :: bool
  reason :: "string option"
  waitMs :: "int option"

definition deny :: "string \<Rightarrow> start_check" where
  "deny r = \<lparr>allowed = False, reason = Some r, waitMs = None\<rparr>"

definition padStart2 :: "string \<Rightarrow> string" where
  "padStart2 str = (if length str < 2 then replicate (2 - length str) CHR ''0'' @ str else str)"

definition isInMorningBlackout :: "config \<Rightarrow> clock \<Rightarrow> string option" where
  "isInMorningBlackout cfg now =
     (let targetHour = morning_trade_hour cfg;
          targetMinute = morning_trade_minute cfg;
          currentTotalMinutes = clk_hour now * 60 + clk_minute now;
          targetTotalMinutes = targetHour * 60 + targetMinute;
          blackoutStartMinutes = targetTotalMinutes - morning_blackout_minutes cfg
      in if blackoutStartMinutes \<le> currentTotalMinutes \<and> currentTotalMinutes < targetTotalMinutes
         then Some (toString (if targetHour mod 12 = 0 then 12 else targetHour mod 12) @ '':''
                    @ padStart2 (toString targetMinute) @ '' ''
                    @ (if 12 \<le> targetHour then ''PM'' else ''AM''))
         else None)"

definition canStartTrade :: "config \<Rightarrow> clock \<Rightarrow> bool \<Rightarrow> store \<Rightarrow> start_check" where
  "canStartTrade cfg now isUserProposal s =
     (if isEmergencyStopped s then deny ''Bot is in emergency stop mode.''
      else if trades_getActive s \<noteq> None then deny ''A trade is already in progress.''
      else if settlements_getIncomplete s \<noteq> []
      then deny ''Payout settlement in progress. Trading will resume after payouts complete.''
      else
        let gapMs = (case trades_getLastResolved s of
                       None \<Rightarrow> None
                     | Some lastTrade \<Rightarrow> map_option (\<lambda>r. clk_ms now - r) (t_resolved_at lastTrade));
            minGapMs = min_gap_minutes cfg * 60 * 1000
        in if gapMs \<noteq> None \<and> the gapMs < minGapMs
           then (let wait = minGapMs - the gapMs;
                     waitMins = Math_ceil (of_int wait / 60000)
                 in \<lparr>allowed = False,
                     reason = Some (''Too soon after last trade. Wait '' @ toString waitMins
                                    @ '' minute(s).''),
                     waitMs = Some wait\<rparr>)
           else if isUserProposal \<and> isInMorningBlackout cfg now \<noteq> None
           then deny (''Morning trade blackout. /propose available again at ''
                      @ the (isInMorningBlackout cfg now) @ ''.'')
           else \<lparr>allowed = True, reason = None, waitMs = None\<rparr>)"

definition isWithinTradingHours :: "config \<Rightarrow> clock \<Rightarrow> bool" where
  "isWithinTradingHours cfg now =
     (trade_hours_start cfg \<le> clk_hour now \<and> clk_hour now < trade_hours_end cfg)"

subsection \<open>Starting a trade\<close>

record market =
  mk_id :: string
  mk_asset :: string
  mk_resolution_time :: timestamp

text \<open>
  What \<open>startTrade\<close> meets outside the store: whether a notice to the channel is sent,
  the parallel fetch of markets and candles, the asset the analysis proposes, the
  single-market lookup per asset, the price lookup for a fallback asset, the time of
  creation, and the id of the posted proposal message.
\<close>

record start_env =
  se_clock :: clock
  se_send_ok :: bool
  se_fetch :: "market list awaited"
  se_analysis :: "string awaited"
  se_get15MinuteMarket :: "string \<Rightarrow> market option awaited"
  se_getCurrentPrice :: "string \<Rightarrow> unit awaited"
  se_created_at :: timestamp
  se_proposal :: "string awaited"

definition sent :: "bool \<Rightarrow> completion" where
  "sent ok = (if ok then Returned else Thrown)"

definition find_market :: "start_env \<Rightarrow> market list \<Rightarrow> string \<Rightarrow> market option awaited" where
  "find_market env allMarkets a =
     (case (if a \<in> set [''BTC'', ''ETH'', ''SOL'', ''XRP'']
            then find (\<lambda>m. mk_asset m = a) allMarkets else None) of
        Some m \<Rightarrow> Resolved (Some m)
      | None \<Rightarrow> se_get15MinuteMarket env a)"

fun fallback_market ::
  "start_env \<Rightarrow> market list \<Rightarrow> string \<Rightarrow> string list \<Rightarrow> (string \<times> market) option awaited" where
  "fallback_market env allMarkets chosen [] = Resolved None"
| "fallback_market env allMarkets chosen (fallbackAsset # rest) =
     (if fallbackAsset \<noteq> chosen
      then (case find_market env allMarkets fallbackAsset of
              Rejected m \<Rightarrow> Rejected m
            | Resolved (Some fallbackMarket) \<Rightarrow>
                (case se_getCurrentPrice env fallbackAsset of
                   Rejected m \<Rightarrow> Rejected m
                 | Resolved _ \<Rightarrow> Resolved (Some (fallbackAsset, fallbackMarket)))
            | Resolved None \<Rightarrow> fallback_market env allMarkets chosen rest)
      else fallback_market env allMarkets chosen rest)"

definition create_and_post ::
  "config \<Rightarrow> start_env \<Rightarrow> string \<Rightarrow> market \<Rightarrow> store \<Rightarrow> completion \<times> store" where
  "create_and_post cfg env a mkt s =
     (case trades_createIfNoActive
             \<lparr>tp_asset = a, tp_polymarket_market_id = Some (mk_id mkt),
              tp_resolution_time = Some (mk_resolution_time mkt),
              tp_voting_ends_at = Some (se_created_at env + voting_window_seconds cfg * 1000)\<rparr> s of
        Inl e \<Rightarrow> (Thrown, s)
      | Inr (None, s1) \<Rightarrow> (sent (se_send_ok env), s1)
      | Inr (Some trade, s1) \<Rightarrow>
          (case se_proposal env of
             Rejected m \<Rightarrow> (Returned, trades_deleteTrade (t_id trade) s1)
           | Resolved messageId \<Rightarrow> (Returned, trades_updateMessageId (t_id trade) messageId s1)))"

definition startTrade :: "config \<Rightarrow> start_env \<Rightarrow> store \<Rightarrow> completion \<times> store" where
  "startTrade cfg env s =
     (if isEmergencyStopped s then (sent (se_send_ok env), s)
      else if settlements_getIncomplete s \<noteq> [] then (sent (se_send_ok env), s)
      else if trades_getActive s \<noteq> None then (Returned, s)
      else
        case se_fetch env of
          Rejected m \<Rightarrow> (Thrown, s)
        | Resolved allMarkets \<Rightarrow>
        case se_analysis env of
          Rejected m \<Rightarrow> (sent (se_send_ok env), s)
        | Resolved chosen \<Rightarrow>
        case find_market env allMarkets chosen of
          Rejected m \<Rightarrow> (Thrown, s)
        | Resolved (Some mkt) \<Rightarrow> create_and_post cfg env chosen mkt s
        | Resolved None \<Rightarrow>
            if \<not> se_send_ok env then (Thrown, s)
            else
              case fallback_market env allMarkets chosen [''BTC'', ''ETH'', ''SOL'', ''XRP''] of
                Rejected m \<Rightarrow> (Thrown, s)
              | Resolved None \<Rightarrow> (Returned, s)
              | Resolved (Some (fallbackAsset, mkt)) \<Rightarrow> create_and_post cfg env fallbackAsset mkt s)"

subsection \<open>Closing the vote\<close>

record discord_user =
  du_id :: string
  du_username :: string
  du_bot :: bool
  du_holds_role :: bool

text \<open>
  The proposal message: whether it has a guild, and for each vote emoji the users who
  reacted (\<open>None\<close> when the message has no such reaction; the fetch of the users may
  reject).
\<close>

record message =
  msg_guild :: bool
  msg_up :: "discord_user list awaited option"
  msg_down :: "discord_user list awaited option"

definition getEligibleSnapshotUser ::
  "config \<Rightarrow> discord_user \<Rightarrow> bool \<Rightarrow> store \<Rightarrow> user_row option \<times> store" where
  "getEligibleSnapshotUser cfg discordUser guild s =
     (if du_bot discordUser then (None, s)
      else if \<not> guild then (None, s)
      else if truthy (holder_role_id cfg) \<and> \<not> du_holds_role discordUser then (None, s)
      else
        case users_get s (du_id discordUser) of
          None \<Rightarrow> (None, s)
        | Some user \<Rightarrow>
            if \<not> truthy (wallet_address user) then (None, s)
            else if discord_username user \<noteq> Some (du_username discordUser)
            then (case users_getOrCreate (du_id discordUser) (du_username discordUser) s of
                    (u, s1) \<Rightarrow> (Some u, s1))
            else (Some user, s))"

fun snapshot_users ::
  "config \<Rightarrow> nat \<Rightarrow> bool \<Rightarrow> string \<Rightarrow> timestamp \<Rightarrow> discord_user list \<Rightarrow> store \<Rightarrow> store" where
  "snapshot_users cfg tradeId guild direction snapshotAt [] s = s"
| "snapshot_users cfg tradeId guild direction snapshotAt (discordUser # rest) s =
     (case getEligibleSnapshotUser cfg discordUser guild s of
        (None, s1) \<Rightarrow> snapshot_users cfg tradeId guild direction snapshotAt rest s1
      | (Some user, s1) \<Rightarrow>
          snapshot_users cfg tradeId guild direction snapshotAt rest
            (predictions_upsertWithSnapshot (discord_id user) tradeId direction snapshotAt s1))"

definition snapshotPredictionsFromReactions ::
  "config \<Rightarrow> nat \<Rightarrow> message \<Rightarrow> timestamp \<Rightarrow> store \<Rightarrow> completion \<times> store" where
  "snapshotPredictionsFromReactions cfg tradeId msg snapshotAt s =
     (case (case msg_up msg of
              None \<Rightarrow> (Returned, s)
            | Some (Rejected m) \<Rightarrow> (Thrown, s)
            | Some (Resolved upUsers) \<Rightarrow>
                (Returned, snapshot_users cfg tradeId (msg_guild msg) ''UP'' snapshotAt upUsers s)) of
        (Thrown, s1) \<Rightarrow> (Thrown, s1)
      | (Returned, s1) \<Rightarrow>
          (case msg_down msg of
             None \<Rightarrow> (Returned, predictions_deleteNonSnapshotted tradeId s1)
           | Some (Rejected m) \<Rightarrow> (Thrown, s1)
           | Some (Resolved downUsers) \<Rightarrow>
               (Returned,
                predictions_deleteNonSnapshotted tradeId
                  (snapshot_users cfg tradeId (msg_guild msg) ''DOWN'' snapshotAt downUsers s1))))"

text \<open>
  The direction, the conviction and the position size as \<open>closeVoting\<close> computes them;
  \<open>r\<close> is the value \<open>Math.random()\<close> returns.
\<close>

definition choose_position :: "nat \<Rightarrow> nat \<Rightarrow> real \<Rightarrow> string" where
  "choose_position upVotes downVotes r =
     (if downVotes < upVotes then ''UP''
      else if upVotes < downVotes then ''DOWN''
      else if 1 / 2 < r then ''UP'' else ''DOWN'')"

definition upPercent :: "nat \<Rightarrow> nat \<Rightarrow> int" where
  "upPercent upVotes downVotes = Math_round ((real upVotes / real (upVotes + downVotes)) * 100)"

definition conviction :: "nat \<Rightarrow> nat \<Rightarrow> real" where
  "conviction upVotes downVotes =
     (let up = upPercent upVotes downVotes; down = 100 - up
      in of_int \<bar>up - down\<bar> / 100)"

definition interpolated_size :: "config \<Rightarrow> real \<Rightarrow> real \<Rightarrow> real" where
  "interpolated_size cfg poolBalance conv =
     (let minPct = or_default (min_position_pct cfg) (5 / 100);
          maxPct = or_default (max_position_pct cfg) (10 / 100);
          minSize = poolBalance * minPct;
          maxSize = poolBalance * maxPct
      in minSize + (maxSize - minSize) * conv)"

datatype trade_result = Filled string | NotFilled | ExecuteRejects

text \<open>
  What \<open>closeVoting\<close> meets outside the store. \<open>ce_announce_ok\<close> tells whether the
  statements after \<open>updateOrderId\<close> in the \<open>try\<close> block (the announcement) complete;
  \<open>ce_send_ok\<close> whether a cancellation notice is sent.
\<close>

record close_env =
  ce_message :: "message option"
  ce_market :: "market option"
  ce_snapshot_time :: timestamp
  ce_pool_balance :: real
  ce_random :: real
  ce_executeTrade :: "market \<Rightarrow> string \<Rightarrow> real \<Rightarrow> trade_result"
  ce_executed_at :: timestamp
  ce_announce_ok :: bool
  ce_send_ok :: bool

text \<open>
  With no votes at all (possible only when \<open>min_votes\<close> is not positive) the percentages
  and the size are \<open>NaN\<close>; \<open>executeTrade\<close> refuses a size that is not finite, so the trade
  is deleted on every path.
\<close>

definition closeVoting ::
  "config \<Rightarrow> close_env \<Rightarrow> nat \<Rightarrow> message \<Rightarrow> market option \<Rightarrow> store \<Rightarrow> completion \<times> store" where
  "closeVoting cfg env tradeId proposalMessage mkt s =
     (case trades_getById s tradeId of
        None \<Rightarrow> (Returned, s)
      | Some trade \<Rightarrow>
          if t_status trade \<noteq> ''voting'' then (Returned, s)
          else
            case snapshotPredictionsFromReactions cfg tradeId proposalMessage
                   (ce_snapshot_time env) s of
              (Thrown, s1) \<Rightarrow> (Thrown, s1)
            | (Returned, s1) \<Rightarrow>
                (case predictions_getVoteCounts s1 tradeId of
                   (upVotes, downVotes) \<Rightarrow>
                     let totalVotes = upVotes + downVotes;
                         cancelled = (sent (ce_send_ok env), trades_deleteTrade tradeId s1)
                     in if int totalVotes < min_votes cfg then cancelled
                        else
                          let position = choose_position upVotes downVotes (ce_random env);
                              poolBalance = ce_pool_balance env
                          in if poolBalance \<le> 0 then cancelled
                             else if totalVotes = 0 then cancelled
                             else
                               let size0 = interpolated_size cfg poolBalance
                                             (conviction upVotes downVotes)
                               in if size0 < 1 \<and> \<not> 1 \<le> poolBalance then cancelled
                                  else
                                    let positionSize = (if size0 < 1 then 1 else size0)
                                    in case mkt of
                                         None \<Rightarrow> cancelled
                                       | Some m \<Rightarrow>
                                           (case ce_executeTrade env m position positionSize of
                                              Filled orderID \<Rightarrow>
                                                let s2 = trades_updateOrderId tradeId (Some orderID)
                                                           (trades_execute tradeId position
                                                              (ce_executed_at env) s1)
                                                in if ce_announce_ok env then (Returned, s2)
                                                   else (sent (ce_send_ok env),
                                                         trades_deleteTrade tradeId s2)
                                            | _ \<Rightarrow> cancelled)))"

definition cancelVotingTrade :: "nat \<Rightarrow> store \<Rightarrow> store" where
  "cancelVotingTrade tradeId s = trades_deleteTrade tradeId s"

definition closeVotingFromTick ::
  "config \<Rightarrow> close_env \<Rightarrow> bool \<Rightarrow> trade_row \<Rightarrow> store \<Rightarrow> completion \<times> store" where
  "closeVotingFromTick cfg env channel trade s =
     (if \<not> channel then (Returned, s)
      else
        case (if truthy (t_proposal_message_id trade) then ce_message env else None) of
          None \<Rightarrow> (Returned, cancelVotingTrade (t_id trade) s)
        | Some proposalMessage \<Rightarrow>
            (case ce_market env of
               None \<Rightarrow> (Returned, cancelVotingTrade (t_id trade) s)
             | Some m \<Rightarrow> closeVoting cfg env (t_id trade) proposalMessage (Some m) s))"

subsection \<open>Resolution\<close>

datatype resolution = NotResolved | ResolvedTo string

record resolve_env =
  re_now :: timestamp
  re_getMarketResolution :: "resolution awaited"
  re_getPositionPnl :: "real awaited"
  re_redeemWinnings :: "unit awaited"

text \<open>
  The loop of \<open>applyResolutionUpdates\<close> over the snapshotted predictions: the streaks and
  the reputation weight of each voter. Reading a field of a user that does not exist
  throws.
\<close>

fun update_voters ::
  "config \<Rightarrow> string \<Rightarrow> prediction_row list \<Rightarrow> string list \<Rightarrow> store
     \<Rightarrow> error + (string list \<times> store)" where
  "update_voters cfg correctPosition [] correctPredictors s = Inr (correctPredictors, s)"
| "update_voters cfg correctPosition (pred # rest) correctPredictors s =
     (case users_get s (p_user_id pred) of
        None \<Rightarrow> Inl (Error ''TypeError: Cannot read properties of undefined'')
      | Some user \<Rightarrow>
          let wasCorrect = (p_prediction pred = correctPosition);
              newStreak = current_streak user + 1;
              s1 = (if wasCorrect
                    then users_updateStreak (discord_id user) newStreak
                           (max (best_streak user) newStreak) s
                    else users_updateStreak (discord_id user) 0 (best_streak user) s);
              correctPredictors' = (if wasCorrect then correctPredictors @ [discord_id user]
                                    else correctPredictors);
              s2 = (if reputation_weight user < 1
                    then users_updateReputationWeight (discord_id user)
                           (min (max_weight cfg)
                              (reputation_weight user + weight_increase_per_prediction cfg)) s1
                    else s1)
          in update_voters cfg correctPosition rest correctPredictors' s2)"

text \<open>One transaction: a throw inside it rolls every write back.\<close>

definition applyResolutionUpdates ::
  "config \<Rightarrow> timestamp \<Rightarrow> nat \<Rightarrow> string \<Rightarrow> real \<Rightarrow> store \<Rightarrow> error + (string list \<times> store)" where
  "applyResolutionUpdates cfg now tradeId correctPosition pnl s =
     (let s1 = predictions_markCorrectness tradeId correctPosition
                 (trades_resolve tradeId pnl now s)
      in update_voters cfg correctPosition (predictions_getSnapshottedByTrade s1 tradeId) [] s1)"

definition resolveRound :: "config \<Rightarrow> resolve_env \<Rightarrow> nat \<Rightarrow> store \<Rightarrow> store" where
  "resolveRound cfg env tradeId s =
     (case trades_getById s tradeId of
        None \<Rightarrow> s
      | Some trade \<Rightarrow>
          if t_status trade \<noteq> ''executed'' then s
          else
            case re_getMarketResolution env of
              Rejected m \<Rightarrow> s
            | Resolved NotResolved \<Rightarrow> s
            | Resolved (ResolvedTo outcome) \<Rightarrow>
                (case re_getPositionPnl env of
                   Rejected m \<Rightarrow> s
                 | Resolved pnl \<Rightarrow>
                     (case re_redeemWinnings env of
                        Rejected m \<Rightarrow> s
                      | Resolved _ \<Rightarrow>
                          (case applyResolutionUpdates cfg (re_now env) tradeId outcome pnl s of
                             Inl e \<Rightarrow> s
                           | Inr (summary, s1) \<Rightarrow> s1))))"

section \<open>The scheduler (src/services/scheduler.js)\<close>

text \<open>
  The running process: the store, and the module state that a restart loses (whether the
  trading channel was found, the set of trades being resolved, and the pending timers
  that re-run a delayed scheduled trade).
\<close>

record process =
  db :: store
  tradingChannel :: bool
  resolvingTrades :: "nat list"
  timers :: "(timestamp \<times> string) list"

definition on_db :: "(store \<Rightarrow> completion \<times> store) \<Rightarrow> process \<Rightarrow> completion \<times> process" where
  "on_db f p = (case f (db p) of (c, s) \<Rightarrow> (c, p\<lparr>db := s\<rparr>))"

text \<open>\<open>await a; await b\<close>: a throw in \<open>a\<close> skips \<open>b\<close>.\<close>

definition and_then ::
  "completion \<times> process \<Rightarrow> (process \<Rightarrow> completion \<times> process) \<Rightarrow> completion \<times> process" where
  "and_then r f = (case r of (Thrown, p) \<Rightarrow> (Thrown, p) | (Returned, p) \<Rightarrow> f p)"

definition handleScheduledTrade ::
  "config \<Rightarrow> start_env \<Rightarrow> string \<Rightarrow> process \<Rightarrow> completion \<times> process" where
  "handleScheduledTrade cfg env ty p =
     (if \<not> tradingChannel p then (Returned, p)
      else
        let check = canStartTrade cfg (se_clock env) False (db p)
        in if \<not> allowed check \<and> waitMs check \<noteq> None \<and> waitMs check \<noteq> Some 0
           then (Returned, p\<lparr>timers := timers p @ [(clk_ms (se_clock env) + the (waitMs check), ty)]\<rparr>)
           else if \<not> allowed check then (Returned, p)
           else on_db (startTrade cfg env) p)"

fun close_due ::
  "config \<Rightarrow> (nat \<Rightarrow> close_env) \<Rightarrow> clock \<Rightarrow> bool \<Rightarrow> trade_row list \<Rightarrow> store
     \<Rightarrow> completion \<times> store" where
  "close_due cfg envs now channel [] s = (Returned, s)"
| "close_due cfg envs now channel (trade # rest) s =
     (if t_voting_ends_at trade \<le> clk_ms now
      then (case closeVotingFromTick cfg (envs (t_id trade)) channel trade s of
              (Thrown, s1) \<Rightarrow> (Thrown, s1)
            | (Returned, s1) \<Rightarrow> close_due cfg envs now channel rest s1)
      else close_due cfg envs now channel rest s)"

definition checkVotingWindows ::
  "config \<Rightarrow> (nat \<Rightarrow> close_env) \<Rightarrow> clock \<Rightarrow> process \<Rightarrow> completion \<times> process" where
  "checkVotingWindows cfg envs now p =
     on_db (\<lambda>s. close_due cfg envs now (tradingChannel p) (trades_getVotingTrades s) s) p"

definition checkMorningTrade ::
  "config \<Rightarrow> start_env \<Rightarrow> clock \<Rightarrow> process \<Rightarrow> completion \<times> process" where
  "checkMorningTrade cfg env now p =
     (case runtimeState_getScheduleState (db p) of
        None \<Rightarrow> (Thrown, p)
      | Some state \<Rightarrow>
          if last_morning_trade_date state = clk_date now then (Returned, p)
          else if morning_trade_hour cfg * 60 + morning_trade_minute cfg
                    \<le> clk_hour now * 60 + clk_minute now
          then handleScheduledTrade cfg env ''morning''
                 (p\<lparr>db := runtimeState_setLastMorningTradeDate (clk_date now) (db p)\<rparr>)
          else (Returned, p))"

definition scheduleNextHourlyTrade :: "config \<Rightarrow> real \<Rightarrow> clock \<Rightarrow> store \<Rightarrow> store" where
  "scheduleNextHourlyTrade cfg r now s =
     (let secondsIntoMinute = ((clk_ms now div 1000) mod 60) * 1000 + clk_ms now mod 1000;
          msUntilNextHour = (60 - clk_minute now) * 60 * 1000 - secondsIntoMinute;
          nextHour = clk_ms now + msUntilNextHour;
          variance = interval_variance_minutes cfg * 60 * 1000;
          randomOffset = Math_floor (r * of_int variance * 2) - variance;
          scheduledTime = nextHour + randomOffset
      in runtimeState_setNextHourlyTradeAt
           (if scheduledTime \<le> clk_ms now then clk_ms now + 60000 else scheduledTime) s)"

definition checkHourlyTrade ::
  "config \<Rightarrow> start_env \<Rightarrow> real \<Rightarrow> clock \<Rightarrow> process \<Rightarrow> completion \<times> process" where
  "checkHourlyTrade cfg env r now p =
     (if clk_hour now = morning_trade_hour cfg then (Returned, p)
      else if \<not> isWithinTradingHours cfg now then (Returned, p)
      else
        case runtimeState_getScheduleState (db p) of
          None \<Rightarrow> (Thrown, p)
        | Some state \<Rightarrow>
            if next_hourly_trade_at state = 0
            then (Returned, p\<lparr>db := scheduleNextHourlyTrade cfg r now (db p)\<rparr>)
            else if next_hourly_trade_at state \<le> clk_ms now
            then handleScheduledTrade cfg env ''hourly''
                   (p\<lparr>db := scheduleNextHourlyTrade cfg r now (db p)\<rparr>)
            else (Returned, p))"

text \<open>
  \<open>handleWeeklyPayout\<close> catches what \<open>runWeeklyPayouts\<close> throws. From its check of the
  incomplete settlements to the end of the transaction inside \<open>runWeeklyPayouts\<close> nothing
  is awaited.
\<close>

definition handleWeeklyPayout ::
  "config \<Rightarrow> (nat \<Rightarrow> chain_env) \<Rightarrow> bool \<Rightarrow> timestamp \<Rightarrow> process \<Rightarrow> completion \<times> process" where
  "handleWeeklyPayout cfg envs send_ok now p =
     (if \<not> tradingChannel p then (Returned, p)
      else if isEmergencyStopped (db p) then (Returned, p)
      else if settlements_getIncomplete (db p) \<noteq> [] then (Returned, p)
      else (Returned, p\<lparr>db := snd (runWeeklyPayouts cfg envs send_ok now True (db p))\<rparr>))"

definition checkWeeklyPayout ::
  "config \<Rightarrow> (nat \<Rightarrow> chain_env) \<Rightarrow> bool \<Rightarrow> clock \<Rightarrow> process \<Rightarrow> completion \<times> process" where
  "checkWeeklyPayout cfg envs send_ok now p =
     (if clk_weekday now \<noteq> ''Sun'' then (Returned, p)
      else if clk_hour now < 18 then (Returned, p)
      else
        case runtimeState_getScheduleState (db p) of
          None \<Rightarrow> (Thrown, p)
        | Some state \<Rightarrow>
            if last_weekly_payout_date state = clk_date now then (Returned, p)
            else handleWeeklyPayout cfg envs send_ok (clk_ms now)
                   (p\<lparr>db := runtimeState_setLastWeeklyPayoutDate (clk_date now) (db p)\<rparr>))"

text \<open>
  \<open>checkPendingResolutions\<close> starts \<open>resolveRound\<close> for every ready trade that is not
  already being resolved; the trade leaves the set when its resolution ends.
\<close>

fun resolve_ready ::
  "config \<Rightarrow> (nat \<Rightarrow> resolve_env) \<Rightarrow> trade_row list \<Rightarrow> process \<Rightarrow> process" where
  "resolve_ready cfg envs [] p = p"
| "resolve_ready cfg envs (trade # rest) p =
     (if t_id trade \<in> set (resolvingTrades p) then resolve_ready cfg envs rest p
      else
        let p1 = p\<lparr>resolvingTrades := resolvingTrades p @ [t_id trade]\<rparr>;
            p2 = p1\<lparr>db := resolveRound cfg (envs (t_id trade)) (t_id trade) (db p1)\<rparr>;
            p3 = p2\<lparr>resolvingTrades := filter (\<lambda>i. i \<noteq> t_id trade) (resolvingTrades p2)\<rparr>
        in resolve_ready cfg envs rest p3)"

definition checkPendingResolutions ::
  "config \<Rightarrow> (nat \<Rightarrow> resolve_env) \<Rightarrow> timestamp \<Rightarrow> process \<Rightarrow> completion \<times> process" where
  "checkPendingResolutions cfg envs now p =
     (if \<not> tradingChannel p then (Returned, p)
      else if isEmergencyStopped (db p) then (Returned, p)
      else (Returned, resolve_ready cfg envs (trades_getReadyForResolution (db p) now) p))"

record tick_env =
  te_now :: clock
  te_close :: "nat \<Rightarrow> close_env"
  te_morning :: start_env
  te_hourly :: start_env
  te_hourly_random :: real
  te_chain :: "nat \<Rightarrow> chain_env"
  te_payout_send_ok :: bool
  te_resolve :: "nat \<Rightarrow> resolve_env"
  te_resolution_now :: timestamp

definition tick :: "config \<Rightarrow> tick_env \<Rightarrow> process \<Rightarrow> completion \<times> process" where
  "tick cfg env p =
     (if isEmergencyStopped (db p) then (Returned, p)
      else
        and_then (and_then (and_then (and_then
          (checkVotingWindows cfg (te_close env) (te_now env) p)
          (checkMorningTrade cfg (te_morning env) (te_now env)))
          (checkHourlyTrade cfg (te_hourly env) (te_hourly_random env) (te_now env)))
          (checkWeeklyPayout cfg (te_chain env) (te_payout_send_ok env) (te_now env)))
          (checkPendingResolutions cfg (te_resolve env) (te_resolution_now env)))"

text \<open>
  \<open>/propose\<close>: \<open>holder\<close> tells whether the holder-role check passes and \<open>channel\<close> whether
  the trading channel is found; a throw of \<open>startTrade\<close> is caught.
\<close>

definition handlePropose ::
  "config \<Rightarrow> start_env \<Rightarrow> bool \<Rightarrow> bool \<Rightarrow> process \<Rightarrow> completion \<times> process" where
  "handlePropose cfg env holder channel p =
     (if truthy (holder_role_id cfg) \<and> \<not> holder then (Returned, p)
      else if \<not> allowed (canStartTrade cfg (se_clock env) True (db p)) then (Returned, p)
      else if \<not> channel then (Thrown, p)
      else (Returned, p\<lparr>db := snd (startTrade cfg env (db p))\<rparr>))"

text \<open>
  A restart keeps the store and loses the module state: the database is initialised
  again, and \<open>initScheduler\<close> looks the trading channel up.
\<close>

definition restart :: "bool \<Rightarrow> process \<Rightarrow> process" where
  "restart channel p =
     \<lparr>db = initializeDatabase (db p), tradingChannel = channel, resolvingTrades = [],
      timers = []\<rparr>"

definition boot :: "bool \<Rightarrow> process" where
  "boot channel = restart channel \<lparr>db = empty_store, tradingChannel = False,
                                   resolvingTrades = [], timers = []\<rparr>"

text \<open>
  The events of the running process, each handler run to its end: a tick of the
  scheduler, a delayed scheduled trade whose timer fires, a \<open>/propose\<close> command, the
  settlement retry pass (at start-up and on its own five-minute timer, src/bot/client.js),
  the \<open>/emergency-stop\<close> and \<open>/resume\<close> commands, and a restart. A creation attempt
  awaits the markets and the analysis between its admission checks and its transaction,
  so other events may come in between: \<open>step_create\<close> is the transaction of an attempt
  whose checks passed at some earlier state, with the posting of the proposal. In
  \<open>closeVoting\<close> and \<open>resolveRound\<close> the status check and the writes are one step.
\<close>

inductive step :: "config \<Rightarrow> process \<Rightarrow> process \<Rightarrow> bool" for cfg :: config where
  step_tick: "step cfg p (snd (tick cfg env p))"
| step_create: "step cfg p (p\<lparr>db := snd (create_and_post cfg senv a mkt (db p))\<rparr>)"
| step_timer: "(due, ty) \<in> set (timers p) \<Longrightarrow>
     step cfg p (snd (handleScheduledTrade cfg senv ty (p\<lparr>timers := remove1 (due, ty) (timers p)\<rparr>)))"
| step_propose: "step cfg p (snd (handlePropose cfg senv holder channel p))"
| step_retry: "step cfg p (p\<lparr>db := snd (retryFailedSettlements envs send_ok now True (db p))\<rparr>)"
| step_stop: "step cfg p (p\<lparr>db := setEmergencyStop stopped (db p)\<rparr>)"
| step_restart: "step cfg p (restart channel p)"

inductive reachable :: "config \<Rightarrow> process \<Rightarrow> bool" for cfg :: config where
  reachable_boot: "reachable cfg (boot channel)"
| reachable_step: "reachable cfg p \<Longrightarrow> step cfg p p' \<Longrightarrow> reachable cfg p'"

section \<open>Properties as the specification words them\<close>

text \<open>A reason "mentions" a phrase when the phrase occurs in it.\<close>

fun starts_with :: "string \<Rightarrow> string \<Rightarrow> bool" where
  "starts_with [] ys = True"
| "starts_with (x # xs) [] = False"
| "starts_with (x # xs) (y # ys) = (x = y \<and> starts_with xs ys)"

fun mentions :: "string \<Rightarrow> string \<Rightarrow> bool" where
  "mentions [] phrase = (phrase = [])"
| "mentions (c # cs) phrase = (starts_with phrase (c # cs) \<or> mentions cs phrase)"

text \<open>At most one trade row is in status \<open>voting\<close> or \<open>executed\<close>.\<close>

definition at_most_one_active :: "store \<Rightarrow> bool" where
  "at_most_one_active s = (length (filter is_active (trades s)) \<le> 1)"




text \<open>
  A settlement is exhausted when it has a payout that is not sent and every payout of it
  that is not sent has used up its retries.
\<close>

definition exhausted :: "store \<Rightarrow> nat \<Rightarrow> bool" where
  "exhausted s settlementId =
     (let unsent = filter (\<lambda>p. po_status p \<noteq> ''sent'') (payouts_getBySettlement s settlementId)
      in unsent \<noteq> [] \<and> list_all (\<lambda>p. MAX_PAYOUT_RETRIES \<le> po_retry_count p) unsent)"


text \<open>
  What a step on one payout, and a step on one settlement, may rewrite: the rows keep
  their keys, and only the rows of that payout, or of that settlement, change. A step on a
  settlement never clears the emergency stop.
\<close>

definition touches_payout :: "nat \<Rightarrow> store \<Rightarrow> store \<Rightarrow> bool" where
  "touches_payout payoutId s s' =
     (\<exists>f. s' = s\<lparr>payouts := map f (payouts s)\<rparr>
          \<and> (\<forall>x. po_id (f x) = po_id x \<and> po_settlement_id (f x) = po_settlement_id x
                 \<and> (po_id x \<noteq> payoutId \<longrightarrow> f x = x)))"


text \<open>
  The invariant of the trades table: distinct ids, none above the AUTOINCREMENT counter,
  and at most one active trade.
\<close>

definition trades_inv :: "store \<Rightarrow> bool" where
  "trades_inv s =
     (distinct (map t_id (trades s)) \<and> (\<forall>t \<in> set (trades s). t_id t \<le> seq_trades s)
      \<and> at_most_one_active s)"

section \<open>Concrete scenarios\<close>

text \<open>
  A configuration, three registered members, a trade whose vote is open, and the
  collaborators of one voting close: the inputs on which the properties below are
  evaluated.
\<close>

definition cfg0 :: config where
  "cfg0 = \<lparr>holder_role_id = None, morning_trade_hour = 9, morning_trade_minute = 0,
            morning_blackout_minutes = 30, trade_hours_start = 10, trade_hours_end = 22,
            interval_variance_minutes = 10, min_gap_minutes = 5, voting_window_seconds = 300,
            min_votes = 2, max_position_pct = 10 / 100, min_position_pct = 5 / 100,
            min_payout_usd = 25, payout_share = 4 / 10,
            payout_distribution =
              \<lparr>dist_first = 5 / 10, dist_second = 3 / 10, dist_third = 2 / 10\<rparr>,
            weight_increase_per_prediction = 1 / 10, max_weight = 1\<rparr>"

definition member :: "string \<Rightarrow> user_row" where
  "member name = \<lparr>discord_id = name, discord_username = Some name,
                  wallet_address = Some (''0x'' @ name), reputation_weight = 1 / 10,
                  current_streak = 0, best_streak = 0\<rparr>"

definition reactor :: "string \<Rightarrow> discord_user" where
  "reactor name = \<lparr>du_id = name, du_username = name, du_bot = False, du_holds_role = True\<rparr>"

definition voting_trade :: trade_row where
  "voting_trade =
     \<lparr>t_id = 1, t_settlement_id = None, t_asset = ''BTC'', t_polymarket_market_id = ''m1'',
      t_proposal_message_id = Some ''msg1'', t_clob_order_id = None,
      t_executed_position = None, t_pnl = None, t_resolution_time = Some 2000000,
      t_voting_ends_at = 1000000, t_status = ''voting'', t_executed_at = None,
      t_resolved_at = None\<rparr>"

definition voting_store :: store where
  "voting_store =
     \<lparr>users = [member ''alice'', member ''bob'', member ''carol''], settlements = [],
      trades = [voting_trade], predictions = [], payouts = [],
      runtime_state = Some default_runtime_state, seq_settlements = 0, seq_trades = 1,
      seq_predictions = 0, seq_payouts = 0\<rparr>"

definition btc_market :: market where
  "btc_market = \<lparr>mk_id = ''m1'', mk_asset = ''BTC'', mk_resolution_time = 2000000\<rparr>"

text \<open>One vote up and one down; two votes up and one down.\<close>

definition tie_message :: message where
  "tie_message = \<lparr>msg_guild = True, msg_up = Some (Resolved [reactor ''alice'']),
                   msg_down = Some (Resolved [reactor ''bob''])\<rparr>"

definition majority_message :: message where
  "majority_message =
     \<lparr>msg_guild = True, msg_up = Some (Resolved [reactor ''alice'', reactor ''bob'']),
      msg_down = Some (Resolved [reactor ''carol''])\<rparr>"

text \<open>
  A pool of 1000 dollars, the value \<open>r\<close> from \<open>Math.random()\<close>, and a gateway that fills
  the orders \<open>fills\<close> accepts.
\<close>

definition close_env0 :: "real \<Rightarrow> (real \<Rightarrow> bool) \<Rightarrow> close_env" where
  "close_env0 r fills =
     \<lparr>ce_message = Some tie_message, ce_market = Some btc_market,
      ce_snapshot_time = 1000001, ce_pool_balance = 1000, ce_random = r,
      ce_executeTrade = (\<lambda>m position size. if fills size then Filled ''order-1'' else NotFilled),
      ce_executed_at = 1000002, ce_announce_ok = True, ce_send_ok = True\<rparr>"

text \<open>
  A trade that was executed and is due for resolution, with two snapshotted votes; the
  gateway reports the market resolved upwards, and \<open>redeem\<close> is what the redemption call
  does.
\<close>

definition executed_trade :: trade_row where
  "executed_trade =
     voting_trade\<lparr>t_clob_order_id := Some ''order-1'', t_executed_position := Some ''UP'',
                  t_status := ''executed'', t_executed_at := Some 1000002\<rparr>"

definition snapshot_vote :: "nat \<Rightarrow> string \<Rightarrow> string \<Rightarrow> prediction_row" where
  "snapshot_vote i name direction =
     \<lparr>p_id = i, p_user_id = name, p_trade_id = 1, p_prediction = direction,
      p_was_correct = None, p_snapshot_at = Some 1000001\<rparr>"

definition executed_store :: store where
  "executed_store =
     voting_store\<lparr>trades := [executed_trade],
                  predictions := [snapshot_vote 1 ''alice'' ''UP'', snapshot_vote 2 ''bob'' ''DOWN''],
                  seq_predictions := 2\<rparr>"

definition resolve_env0 :: "unit awaited \<Rightarrow> resolve_env" where
  "resolve_env0 redeem =
     \<lparr>re_now = 3000001, re_getMarketResolution = Resolved (ResolvedTo ''UP''),
      re_getPositionPnl = Resolved (25 / 2), re_redeemWinnings = redeem\<rparr>"

text \<open>
  The same store after a payout failure raised the emergency stop: a settlement that is
  not completed, and its payout, failed once and due for its next retry. The chain
  accepts the transfer.
\<close>

definition failed_payout :: payout_row where
  "failed_payout =
     \<lparr>po_id = 1, po_user_id = ''alice'', po_settlement_id = Some 1, po_amount = 2002 / 100,
      po_status = ''failed'', po_tx_hash = None, po_tx_request = None, po_rank = 1,
      po_retry_count = 1, po_last_retry_at = Some 1000,
      po_error_message = Some ''Insufficient USDC balance''\<rparr>"

definition stopped_store :: store where
  "stopped_store =
     executed_store\<lparr>settlements := [\<lparr>st_id = 1, st_status = ''failed'', st_triggered_at = 500,
                                       st_error_message = Some ''Some payouts failed - will retry''\<rparr>],
                    payouts := [failed_payout],
                    runtime_state := Some (default_runtime_state\<lparr>emergency_stopped := 1\<rparr>),
                    seq_settlements := 1, seq_payouts := 1\<rparr>"

definition fee_market_request :: tx_request where
  "fee_market_request =
     \<lparr>tx_to = Val ''0x2791Bca1f2de4661ED88A30C99A7a9449Aa84174'', tx_data = Val ''0xa9059cbb'',
      tx_value = Val 0, tx_nonce = Val 7, tx_gasLimit = Val 65000, tx_chainId = Val 137,
      tx_type = Val 2, tx_gasPrice = Undefined, tx_maxFeePerGas = Val 30000000000,
      tx_maxPriorityFeePerGas = Val 1500000000\<rparr>"

definition chain_env0 :: chain_env where
  "chain_env0 =
     \<lparr>ch_isTestMode = False, ch_wallet = True, ch_checkGasBalance = Resolved True,
      ch_balance_sufficient = Resolved True,
      ch_populateTransaction = (\<lambda>recipient amt. Resolved fee_market_request),
      ch_getNetwork_chainId = Resolved 137,
      ch_signTransaction = (\<lambda>txRequest. Resolved ''0xhash''),
      ch_broadcast = (\<lambda>txRequest. WaitReturns (Some ''0xhash'') (Some 1) (Some ''0xhash'')),
      ch_lookup = (\<lambda>txHash. NoReceiptTxUnknown)\<rparr>"

text \<open>A tick on a Monday morning, before the trading hours and the daily trade.\<close>

definition clock0 :: clock where
  "clock0 = \<lparr>clk_ms = 3000000, clk_hour = 8, clk_minute = 0, clk_date = ''2026-01-05'',
             clk_weekday = ''Mon''\<rparr>"

definition start_env0 :: start_env where
  "start_env0 =
     \<lparr>se_clock = clock0, se_send_ok = True, se_fetch = Resolved [btc_market],
      se_analysis = Resolved ''BTC'', se_get15MinuteMarket = (\<lambda>a. Resolved None),
      se_getCurrentPrice = (\<lambda>a. Resolved ()), se_created_at = 3000000,
      se_proposal = Resolved ''msg2''\<rparr>"

definition tick_env0 :: tick_env where
  "tick_env0 =
     \<lparr>te_now = clock0, te_close = (\<lambda>tradeId. close_env0 0 (\<lambda>size. True)),
      te_morning = start_env0, te_hourly = start_env0, te_hourly_random = 1 / 2,
      te_chain = (\<lambda>payoutId. chain_env0), te_payout_send_ok = True,
      te_resolve = (\<lambda>tradeId. resolve_env0 (Resolved ())), te_resolution_now = 3000000\<rparr>"

definition running :: "store \<Rightarrow> process" where
  "running s = \<lparr>db = s, tradingChannel = True, resolvingTrades = [], timers = []\<rparr>"



definition broke_env :: chain_env where
  "broke_env = chain_env0\<lparr>ch_balance_sufficient := Resolved False\<rparr>"

text \<open>
  Sunday evening: one settlement completed earlier, and a trade resolved since with a
  profit of 100 dollars on which alice was right.
\<close>

definition payday_store :: store where
  "payday_store =
     executed_store
       \<lparr>settlements := [\<lparr>st_id = 1, st_status = ''completed'', st_triggered_at = 500,
                          st_error_message = None\<rparr>],
        trades := [executed_trade\<lparr>t_pnl := Some 100, t_status := ''resolved'',
                                   t_resolved_at := Some 3000001\<rparr>],
        predictions := [(snapshot_vote 1 ''alice'' ''UP'')\<lparr>p_was_correct := Some True\<rparr>,
                        (snapshot_vote 2 ''bob'' ''DOWN'')\<lparr>p_was_correct := Some False\<rparr>],
        runtime_state := Some (default_runtime_state\<lparr>last_morning_trade_date := ''2026-01-04'',
                                 next_hourly_trade_at := 400000000\<rparr>),
        seq_settlements := 1\<rparr>"

definition payday_env :: tick_env where
  "payday_env =
     tick_env0\<lparr>te_now := \<lparr>clk_ms = 300000000, clk_hour = 18, clk_minute = 0,
                            clk_date = ''2026-01-04'', clk_weekday = ''Sun''\<rparr>,
               te_chain := (\<lambda>payoutId. broke_env)\<rparr>"

section \<open>Verified properties\<close>

subsection \<open>The payout split\<close>







subsection \<open>Evaluation rules\<close>

lemmas scenario = cfg0_def member_def reactor_def voting_trade_def voting_store_def
  btc_market_def tie_message_def majority_message_def close_env0_def
  default_runtime_state_def executed_trade_def snapshot_vote_def executed_store_def
  resolve_env0_def failed_payout_def stopped_store_def fee_market_request_def
  chain_env0_def clock0_def start_env0_def tick_env0_def running_def



lemmas payout_ops = payouts_updateStatus_def payouts_updateTxHash_def
  payouts_updateTxRequest_def payouts_getById_def payouts_getBySettlement_def
  payouts_getFailedBySettlement_def payouts_incrementRetry_def settlements_getById_def
  settlements_updateStatus_def settlements_getIncomplete_def order_by_def
  runtimeState_getEmergencyStopped_def runtimeState_setEmergencyStopped_def
  isEmergencyStopped_def setEmergencyStop_def

lemmas sending = sendUsdcPayout_def store_and_send_def sign_and_send_def send_catch_def
  fill_type_def serializeTxRequest_def deserializeTxRequest_def BigNumber_from_def
  BigNumber_from_stored_def BigNumber_from_string_def toString_def nat_toString.simps
  digit_char_def digit_val_def missing_def first_truthy_def send_error_def
  plain_error_def reconcilePayoutTx_def processPayout_def payout_res_def or_unknown_def

lemmas retrying = retryFailedSettlements_def retry_settlement_def retry_delay_def
  RETRY_DELAYS_MS_def MAX_PAYOUT_RETRIES_def triggerPayoutEmergencyStop_def

subsection \<open>The emergency stop gates admission\<close>

text \<open>
  C7. Once the emergency stop has been set, \<open>canStartTrade\<close> denies every request, for a
  scheduled trade as for a user proposal, with a reason that mentions the emergency stop;
  and it denies the same way on the process that a restart brings up from the store, since
  the flag is a column of the single \<open>runtime_state\<close> row.
\<close>

theorem canStartTrade_emergency_stop:
  "canStartTrade cfg now isUserProposal (setEmergencyStop True s)
     = \<lparr>allowed = False, reason = Some ''Bot is in emergency stop mode.'', waitMs = None\<rparr>
   \<and> canStartTrade cfg now' isUserProposal'
        (db (restart channel (p\<lparr>db := setEmergencyStop True s\<rparr>)))
     = \<lparr>allowed = False, reason = Some ''Bot is in emergency stop mode.'', waitMs = None\<rparr>
   \<and> mentions ''Bot is in emergency stop mode.'' ''emergency stop''"
  by (simp add: canStartTrade_def isEmergencyStopped_def setEmergencyStop_def
      runtimeState_getEmergencyStopped_def runtimeState_setEmergencyStopped_def restart_def
      initializeDatabase_def deny_def split: option.splits)

subsection \<open>A failed redemption leaves the store alone\<close>

lemma set_insert_by: "set (insert_by le x xs) = insert x (set xs)"
  by (induction xs) auto

lemma set_order_by: "set (order_by le xs) = set xs"
  by (induction xs) (auto simp: order_by_def set_insert_by)

text \<open>
  C5. When the redemption call throws, \<open>resolveRound\<close> returns the store it was given: the
  trade keeps status \<open>executed\<close> and its empty P&L, and no prediction and no user is
  written. The resolution attempt that \<open>checkPendingResolutions\<close> starts for the trade
  leaves the whole process as it was, with the trade out of the set of trades being
  resolved, so the trade is ready again at every later tick.
\<close>

theorem resolveRound_redeem_fails:
  assumes "re_redeemWinnings (envs (t_id trade)) = Rejected m"
    and "t_id trade \<notin> set (resolvingTrades p)"
  shows "resolveRound cfg (envs (t_id trade)) (t_id trade) (db p) = db p
       \<and> resolve_ready cfg envs [trade] p = p
       \<and> (\<forall>now later. trade \<in> set (trades_getReadyForResolution (db p) now) \<and> now \<le> later
            \<longrightarrow> trade \<in> set (trades_getReadyForResolution
                               (db (resolve_ready cfg envs [trade] p)) later))"
proof -
  have unchanged: "resolveRound cfg (envs (t_id trade)) (t_id trade) (db p) = db p"
    using assms(1)
    by (simp add: resolveRound_def split: option.splits awaited.splits resolution.splits)
  have "filter (\<lambda>i. i \<noteq> t_id trade) (resolvingTrades p) = resolvingTrades p"
    using assms(2) by (induction "resolvingTrades p") (auto simp: filter_id_conv)
  then have same: "resolve_ready cfg envs [trade] p = p"
    using assms(2) unchanged by (simp add: Let_def)
  have "trade \<in> set (trades_getReadyForResolution (db p) later)"
    if "trade \<in> set (trades_getReadyForResolution (db p) now)" and "now \<le> later"
    for now later :: int
  proof -
    have "now div 1000 \<le> later div 1000"
      using that(2) by (simp add: zdiv_mono1)
    then show ?thesis
      using that(1)
      by (auto simp: trades_getReadyForResolution_def set_order_by split: option.splits)
  qed
  then have later: "\<forall>now later. trade \<in> set (trades_getReadyForResolution (db p) now) \<and> now \<le> later
            \<longrightarrow> trade \<in> set (trades_getReadyForResolution (db p) later)"
    by blast
  show ?thesis
    unfolding same using unchanged later by blast
qed

theorem resolveRound_redeem_fails_witness:
  "re_redeemWinnings (resolve_env0 (Rejected ''execution reverted'')) = Rejected ''execution reverted''
   \<and> t_id executed_trade \<notin> set (resolvingTrades (running executed_store))
   \<and> executed_trade \<in> set (trades_getReadyForResolution executed_store 3000000)
   \<and> resolveRound cfg0 (resolve_env0 (Rejected ''execution reverted'')) 1 executed_store
       = executed_store
   \<and> executed_trade \<in> set (trades_getReadyForResolution
        (db (resolve_ready cfg0 (\<lambda>tradeId. resolve_env0 (Rejected ''execution reverted''))
               [executed_trade] (running executed_store))) 3005000)"
proof -
  let ?envs = "\<lambda>tradeId :: nat. resolve_env0 (Rejected ''execution reverted'')"
  let ?p = "running executed_store"
  have h1: "re_redeemWinnings (?envs (t_id executed_trade)) = Rejected ''execution reverted''"
    by (simp add: resolve_env0_def)
  have h2: "t_id executed_trade \<notin> set (resolvingTrades ?p)"
    by (simp add: running_def)
  have id: "t_id executed_trade = 1" "db ?p = executed_store"
    by (simp_all add: scenario)
  have ready: "executed_trade \<in> set (trades_getReadyForResolution (db ?p) 3000000)"
    unfolding id by (simp add: trades_getReadyForResolution_def set_order_by scenario)
  have le: "(3000000 :: int) \<le> 3005000"
    by simp
  note fails = resolveRound_redeem_fails [of ?envs executed_trade "''execution reverted''" ?p
      cfg0, OF h1 h2]
  have unchanged: "resolveRound cfg0 (?envs (t_id executed_trade)) (t_id executed_trade) (db ?p)
      = db ?p"
    using fails by blast
  have again: "executed_trade \<in> set (trades_getReadyForResolution
      (db (resolve_ready cfg0 ?envs [executed_trade] ?p)) 3005000)"
    using fails ready le by blast
  show ?thesis
    using h1 h2 ready unchanged again unfolding id by simp
qed

text \<open>
  With a redemption that succeeds the same call resolves the trade, marks the two
  predictions and updates the two voters.
\<close>

lemma resolveRound_redeemed_example:
  "map (\<lambda>t. (t_status t, t_pnl t)) (trades (resolveRound cfg0 (resolve_env0 (Resolved ())) 1
       executed_store)) = [(''resolved'', Some (25 / 2))]
   \<and> map p_was_correct (predictions (resolveRound cfg0 (resolve_env0 (Resolved ())) 1
       executed_store)) = [Some True, Some False]
   \<and> map (\<lambda>u. (current_streak u, reputation_weight u))
        (users (resolveRound cfg0 (resolve_env0 (Resolved ())) 1 executed_store))
       = [(1, 2 / 10), (0, 2 / 10), (0, 1 / 10)]"
  by code_simp

subsection \<open>Voting close: direction, conviction and position size\<close>








subsection \<open>Voting close: the tie-break\<close>










subsection \<open>The emergency stop and the scheduler\<close>

text \<open>
  C10, as stated, fails in its last clause: the settlement retry pass is not part of the
  tick. It runs at start-up and on a five-minute timer of its own (src/bot/client.js) and
  does not read the flag, so with the flag set it still retries a due payout; here it
  sends the payout and completes the settlement.
\<close>

theorem retry_while_stopped_counterexample:
  "isEmergencyStopped stopped_store
   \<and> step cfg0 (running stopped_store)
        ((running stopped_store)
           \<lparr>db := snd (retryFailedSettlements (\<lambda>payoutId. chain_env0) (\<lambda>settlementId. True)
                         10000000 True (db (running stopped_store)))\<rparr>)
   \<and> map po_status (payouts stopped_store) = [''failed'']
   \<and> map po_status (payouts (snd (retryFailedSettlements (\<lambda>payoutId. chain_env0)
        (\<lambda>settlementId. True) 10000000 True stopped_store))) = [''sent'']
   \<and> map st_status (settlements (snd (retryFailedSettlements (\<lambda>payoutId. chain_env0)
        (\<lambda>settlementId. True) 10000000 True stopped_store))) = [''completed'']
   \<and> isEmergencyStopped (snd (retryFailedSettlements (\<lambda>payoutId. chain_env0)
        (\<lambda>settlementId. True) 10000000 True stopped_store))"
proof -
  have "step cfg0 (running stopped_store)
        ((running stopped_store)
           \<lparr>db := snd (retryFailedSettlements (\<lambda>payoutId. chain_env0) (\<lambda>settlementId. True)
                         10000000 True (db (running stopped_store)))\<rparr>)"
    by (rule step_retry)
  moreover have "isEmergencyStopped stopped_store"
    by (simp add: scenario payout_ops)
  moreover have "map po_status (payouts stopped_store) = [''failed'']"
    by (simp add: scenario)
  moreover have "map po_status (payouts (snd (retryFailedSettlements (\<lambda>payoutId. chain_env0)
        (\<lambda>settlementId. True) 10000000 True stopped_store))) = [''sent'']"
    by (simp add: scenario payout_ops users_get_def truthy_def sending retrying Let_def)
  moreover have "map st_status (settlements (snd (retryFailedSettlements
        (\<lambda>payoutId. chain_env0) (\<lambda>settlementId. True) 10000000 True stopped_store)))
      = [''completed'']"
    by (simp add: scenario payout_ops users_get_def truthy_def sending retrying Let_def)
  moreover have "isEmergencyStopped (snd (retryFailedSettlements (\<lambda>payoutId. chain_env0)
        (\<lambda>settlementId. True) 10000000 True stopped_store))"
    by (simp add: scenario payout_ops users_get_def truthy_def sending retrying Let_def)
  ultimately show ?thesis
    by blast
qed

text \<open>
  C10, amended. Whenever the persisted emergency-stop flag is set, a scheduler tick
  changes nothing, in the store or in the process: it skips the voting-window closure,
  the daily and the hourly scheduled-trade checks, the weekly payout check and the
  resolution polling, so a tick does not resolve an executed trade until the flag is
  cleared. The weekly payout and the resolution polling also check the flag themselves.
  (The settlement retry pass runs on its own timer and is not gated by the flag.)
\<close>

theorem tick_emergency_stopped:
  assumes "isEmergencyStopped (db p)"
  shows "tick cfg env p = (Returned, p)
       \<and> handleWeeklyPayout cfg envs send_ok now p = (Returned, p)
       \<and> checkPendingResolutions cfg renvs now p = (Returned, p)"
  using assms
  by (simp add: tick_def handleWeeklyPayout_def checkPendingResolutions_def)

theorem tick_emergency_stopped_witness:
  "isEmergencyStopped (db (running stopped_store))
   \<and> executed_trade \<in> set (trades_getReadyForResolution (db (running stopped_store))
                             (te_resolution_now tick_env0))
   \<and> tick cfg0 tick_env0 (running stopped_store) = (Returned, running stopped_store)"
proof -
  have h: "isEmergencyStopped (db (running stopped_store))"
    by (simp add: scenario payout_ops)
  have ready: "executed_trade \<in> set (trades_getReadyForResolution (db (running stopped_store))
      (te_resolution_now tick_env0))"
    by (simp add: trades_getReadyForResolution_def set_order_by scenario)
  show ?thesis
    using tick_emergency_stopped [OF h, of cfg0 tick_env0] h ready by simp
qed

text \<open>With the flag cleared the same tick resolves the executed trade.\<close>

lemma tick_running_example:
  "map t_status (trades (db (snd (tick cfg0 tick_env0 (running executed_store)))))
     = [''resolved'']"
  by code_simp

subsection \<open>A stored transaction request is reused\<close>











subsection \<open>Settlements are created one at a time\<close>

text \<open>Which handlers leave the settlements table alone, and which only rewrite its rows.\<close>

lemma snapshot_users_settlements:
  "settlements (snapshot_users cfg tradeId guild direction snapshotAt us s) = settlements s"
  by (induction us arbitrary: s)
     (auto simp: getEligibleSnapshotUser_def users_getOrCreate_def users_create_def
        predictions_upsertWithSnapshot_def split: option.splits prod.splits)

lemma snapshot_settlements:
  "snapshotPredictionsFromReactions cfg tradeId msg snapshotAt s = (c, s1)
     \<Longrightarrow> settlements s1 = settlements s"
  by (auto simp: snapshotPredictionsFromReactions_def snapshot_users_settlements
      predictions_deleteNonSnapshotted_def split: option.splits awaited.splits)

lemma closeVoting_settlements:
  "closeVoting cfg env tradeId msg mkt s = (c, s1) \<Longrightarrow> settlements s1 = settlements s"
  by (auto simp: closeVoting_def Let_def trades_deleteTrade_def trades_execute_def
      trades_updateOrderId_def dest!: snapshot_settlements
      split: option.splits prod.splits completion.splits trade_result.splits if_splits)

lemma closeVotingFromTick_settlements:
  "closeVotingFromTick cfg env channel trade s = (c, s1) \<Longrightarrow> settlements s1 = settlements s"
  by (auto simp: closeVotingFromTick_def cancelVotingTrade_def trades_deleteTrade_def
      dest!: closeVoting_settlements split: option.splits if_splits)

lemma close_due_settlements:
  "close_due cfg envs now channel ts s = (c, s1) \<Longrightarrow> settlements s1 = settlements s"
  by (induction ts arbitrary: s)
     (auto dest!: closeVotingFromTick_settlements
        split: prod.splits completion.splits if_splits)

lemma create_and_post_settlements:
  "create_and_post cfg env a mkt s = (c, s1) \<Longrightarrow> settlements s1 = settlements s"
  by (auto simp: create_and_post_def trades_createIfNoActive_def trades_deleteTrade_def
      trades_updateMessageId_def Let_def split: sum.splits option.splits prod.splits
      awaited.splits if_splits)

lemma startTrade_settlements:
  "startTrade cfg env s = (c, s1) \<Longrightarrow> settlements s1 = settlements s"
  by (auto simp: startTrade_def dest!: create_and_post_settlements
      split: awaited.splits option.splits prod.splits if_splits)

lemma handleScheduledTrade_settlements:
  "handleScheduledTrade cfg env ty p = (c, p1) \<Longrightarrow> settlements (db p1) = settlements (db p)"
  by (auto simp: handleScheduledTrade_def on_db_def Let_def dest!: startTrade_settlements
      split: prod.splits if_splits)

lemma update_voters_settlements:
  "update_voters cfg correctPosition preds acc s = Inr (summary, s1)
     \<Longrightarrow> settlements s1 = settlements s"
  by (induction preds arbitrary: acc s)
     (auto simp: Let_def users_updateStreak_def users_updateReputationWeight_def
        split: option.splits if_splits)

lemma resolveRound_settlements:
  "settlements (resolveRound cfg env tradeId s) = settlements s"
  by (auto simp: resolveRound_def applyResolutionUpdates_def Let_def
      predictions_markCorrectness_def trades_resolve_def
      dest!: update_voters_settlements
      split: option.splits awaited.splits resolution.splits sum.splits prod.splits)

lemma resolve_ready_settlements:
  "settlements (db (resolve_ready cfg envs ts p)) = settlements (db p)"
  by (induction ts arbitrary: p) (auto simp: Let_def resolveRound_settlements)

lemma order_by_Nil: "order_by le xs = [] \<longleftrightarrow> xs = []"
  using set_order_by [of le xs] by (metis set_empty)

lemma no_incomplete:
  "settlements_getIncomplete s = [] \<Longrightarrow> \<forall>x \<in> set (settlements s). st_status x = ''completed''"
  by (auto simp: settlements_getIncomplete_def order_by_Nil filter_empty_conv)

lemma handleWeeklyPayout_guard:
  assumes "handleWeeklyPayout cfg envs send_ok now p = (c, p1)"
    and "settlements (db p1) \<noteq> settlements (db p)"
  shows "\<forall>x \<in> set (settlements (db p)). st_status x = ''completed''"
  using assms
  by (auto simp: handleWeeklyPayout_def dest: no_incomplete split: if_splits)

lemma checkWeeklyPayout_guard:
  assumes "checkWeeklyPayout cfg envs send_ok now p = (c, p1)"
    and "settlements (db p1) \<noteq> settlements (db p)"
  shows "\<forall>x \<in> set (settlements (db p)). st_status x = ''completed''"
proof -
  let ?p = "p\<lparr>db := runtimeState_setLastWeeklyPayoutDate (clk_date now) (db p)\<rparr>"
  have same: "settlements (db ?p) = settlements (db p)"
    by (simp add: runtimeState_setLastWeeklyPayoutDate_def)
  have "handleWeeklyPayout cfg envs send_ok (clk_ms now) ?p = (c, p1)"
    using assms by (auto simp: checkWeeklyPayout_def split: if_splits option.splits)
  then show ?thesis
    using handleWeeklyPayout_guard [of cfg envs send_ok "clk_ms now" ?p c p1] assms(2)
    unfolding same by blast
qed

lemma checkMorningTrade_settlements:
  "checkMorningTrade cfg env now p = (c, p1) \<Longrightarrow> settlements (db p1) = settlements (db p)"
  by (auto simp: checkMorningTrade_def runtimeState_setLastMorningTradeDate_def
      runtimeState_getScheduleState_def
      dest!: handleScheduledTrade_settlements split: option.splits if_splits)

lemma checkHourlyTrade_settlements:
  "checkHourlyTrade cfg env r now p = (c, p1) \<Longrightarrow> settlements (db p1) = settlements (db p)"
  by (auto simp: checkHourlyTrade_def scheduleNextHourlyTrade_def Let_def
      runtimeState_setNextHourlyTradeAt_def runtimeState_getScheduleState_def
      dest!: handleScheduledTrade_settlements split: option.splits if_splits)

lemma checkVotingWindows_settlements:
  "checkVotingWindows cfg envs now p = (c, p1) \<Longrightarrow> settlements (db p1) = settlements (db p)"
  by (auto simp: checkVotingWindows_def on_db_def dest!: close_due_settlements
      split: prod.splits)

lemma checkPendingResolutions_settlements:
  "checkPendingResolutions cfg envs now p = (c, p1)
     \<Longrightarrow> settlements (db p1) = settlements (db p)"
  by (auto simp: checkPendingResolutions_def resolve_ready_settlements split: if_splits)

lemma and_then_frame:
  assumes "\<And>p. Q (snd (f p)) = Q p"
  shows "Q (snd (and_then r f)) = Q (snd r)"
  using assms by (cases r) (auto simp: and_then_def split: completion.splits)

lemma tick_guard:
  assumes "tick cfg env p = (c, p1)" and "settlements (db p1) \<noteq> settlements (db p)"
  shows "\<forall>x \<in> set (settlements (db p)). st_status x = ''completed''"
proof (cases "isEmergencyStopped (db p)")
  case True
  then show ?thesis
    using assms by (simp add: tick_def)
next
  case False
  let ?Q = "\<lambda>p. settlements (db p)"
  let ?a = "checkVotingWindows cfg (te_close env) (te_now env) p"
  let ?b = "and_then ?a (checkMorningTrade cfg (te_morning env) (te_now env))"
  let ?c = "and_then ?b (checkHourlyTrade cfg (te_hourly env) (te_hourly_random env)
                           (te_now env))"
  let ?weekly = "checkWeeklyPayout cfg (te_chain env) (te_payout_send_ok env) (te_now env)"
  let ?d = "and_then ?c ?weekly"
  have a: "?Q (snd ?a) = ?Q p"
    using checkVotingWindows_settlements [of cfg "te_close env" "te_now env" p]
    by (cases ?a) auto
  have "?Q (snd ?b) = ?Q (snd ?a)"
  proof (rule and_then_frame [where Q = ?Q])
    show "?Q (snd (checkMorningTrade cfg (te_morning env) (te_now env) q)) = ?Q q" for q
      using checkMorningTrade_settlements [of cfg "te_morning env" "te_now env" q]
      by (cases "checkMorningTrade cfg (te_morning env) (te_now env) q") auto
  qed
  then have b: "?Q (snd ?b) = ?Q p"
    using a by simp
  have "?Q (snd ?c) = ?Q (snd ?b)"
  proof (rule and_then_frame [where Q = ?Q])
    show "?Q (snd (checkHourlyTrade cfg (te_hourly env) (te_hourly_random env) (te_now env) q))
        = ?Q q" for q
      using checkHourlyTrade_settlements [of cfg "te_hourly env" "te_hourly_random env"
          "te_now env" q]
      by (cases "checkHourlyTrade cfg (te_hourly env) (te_hourly_random env) (te_now env) q")
         auto
  qed
  then have c: "?Q (snd ?c) = ?Q p"
    using b by simp
  have tick: "tick cfg env p = and_then ?d (checkPendingResolutions cfg (te_resolve env)
      (te_resolution_now env))"
    using False by (simp add: tick_def)
  have "?Q (snd (tick cfg env p)) = ?Q (snd ?d)"
    unfolding tick
  proof (rule and_then_frame [where Q = ?Q])
    show "?Q (snd (checkPendingResolutions cfg (te_resolve env) (te_resolution_now env) q))
        = ?Q q" for q
      using checkPendingResolutions_settlements [of cfg "te_resolve env"
          "te_resolution_now env" q]
      by (cases "checkPendingResolutions cfg (te_resolve env) (te_resolution_now env) q")
         auto
  qed
  then have changed: "?Q (snd ?d) \<noteq> ?Q (snd ?c)"
    using assms c by simp
  obtain cc pc where pc: "?c = (cc, pc)"
    by (cases ?c) auto
  obtain cd pd where pd: "?weekly pc = (cd, pd)"
    by (cases "?weekly pc") auto
  have "cc = Returned"
    using changed pc by (cases cc) (auto simp: and_then_def)
  then have "?Q pd \<noteq> ?Q pc"
    using changed pc pd by (simp add: and_then_def)
  then have "\<forall>x \<in> set (?Q pc). st_status x = ''completed''"
    using checkWeeklyPayout_guard [OF pd] by blast
  then show ?thesis
    using c pc by simp
qed

subsection \<open>What the payout pipeline may rewrite\<close>

lemma touches_refl: "touches_payout payoutId s s"
  unfolding touches_payout_def by (rule exI [of _ id]) simp

lemma touches_map:
  assumes "touches_payout payoutId s s1"
    and "\<And>x. po_id (h x) = po_id x \<and> po_settlement_id (h x) = po_settlement_id x
               \<and> (po_id x \<noteq> payoutId \<longrightarrow> h x = x)"
  shows "touches_payout payoutId s (s1\<lparr>payouts := map h (payouts s1)\<rparr>)"
proof -
  from assms(1) obtain f where f: "s1 = s\<lparr>payouts := map f (payouts s)\<rparr>"
    and keep: "\<forall>x. po_id (f x) = po_id x \<and> po_settlement_id (f x) = po_settlement_id x
                 \<and> (po_id x \<noteq> payoutId \<longrightarrow> f x = x)"
    unfolding touches_payout_def by blast
  have "s1\<lparr>payouts := map h (payouts s1)\<rparr> = s\<lparr>payouts := map (h \<circ> f) (payouts s)\<rparr>"
    by (simp add: f)
  moreover have "\<forall>x. po_id ((h \<circ> f) x) = po_id x
      \<and> po_settlement_id ((h \<circ> f) x) = po_settlement_id x
      \<and> (po_id x \<noteq> payoutId \<longrightarrow> (h \<circ> f) x = x)"
    using keep assms(2) by (metis comp_apply)
  ultimately show ?thesis
    unfolding touches_payout_def by blast
qed

lemma touches_updateStatus:
  "touches_payout payoutId s s1 \<Longrightarrow> touches_payout payoutId s (payouts_updateStatus payoutId st s1)"
  unfolding payouts_updateStatus_def by (rule touches_map) auto

lemma touches_updateTxHash:
  "touches_payout payoutId s s1 \<Longrightarrow> touches_payout payoutId s (payouts_updateTxHash payoutId h s1)"
  unfolding payouts_updateTxHash_def by (rule touches_map) auto

lemma touches_updateTxRequest:
  "touches_payout payoutId s s1
     \<Longrightarrow> touches_payout payoutId s (payouts_updateTxRequest payoutId r s1)"
  unfolding payouts_updateTxRequest_def by (rule touches_map) auto

lemma touches_incrementRetry:
  "touches_payout payoutId s s1
     \<Longrightarrow> touches_payout payoutId s (payouts_incrementRetry payoutId m now s1)"
  unfolding payouts_incrementRetry_def by (rule touches_map) auto

lemmas touches_intros = touches_updateStatus touches_updateTxHash touches_updateTxRequest
  touches_incrementRetry

lemma touches_send_catch:
  "touches_payout payoutId s s1
     \<Longrightarrow> touches_payout payoutId s (snd (send_catch payoutId txh err signed s1))"
  by (auto simp: send_catch_def Let_def intro: touches_intros)

lemma touches_sign_and_send:
  "touches_payout payoutId s s1
     \<Longrightarrow> touches_payout payoutId s (snd (sign_and_send env payoutId txRequest s1))"
  by (auto simp: sign_and_send_def Let_def intro!: touches_send_catch touches_intros
      split: awaited.splits broadcast.splits)

lemma touches_store_and_send:
  "touches_payout payoutId s s1
     \<Longrightarrow> touches_payout payoutId s (snd (store_and_send env payoutId txRequest s1))"
  by (auto simp: store_and_send_def
      intro!: touches_send_catch touches_sign_and_send touches_intros
      split: sum.splits error.splits)

lemma touches_sendUsdcPayout:
  "touches_payout payoutId s s1
     \<Longrightarrow> touches_payout payoutId s
           (snd (sendUsdcPayout env payoutId recipient amountUsd txRequestJson s1))"
  by (auto simp: sendUsdcPayout_def Let_def
      intro!: touches_send_catch touches_sign_and_send touches_store_and_send
      split: awaited.splits sum.splits error.splits option.splits)

lemma touches_reconcile:
  "touches_payout (po_id payout) s s1
     \<Longrightarrow> touches_payout (po_id payout) s (snd (reconcilePayoutTx env now payout s1))"
  by (auto simp: reconcilePayoutTx_def intro!: touches_intros split: receipt_lookup.splits)

lemma touches_processPayout:
  "touches_payout (po_id payout) s (snd (processPayout env now payout s))"
proof -
  have rec: "touches_payout (po_id payout) s (snd (reconcilePayoutTx env now payout s))"
    by (rule touches_reconcile) (rule touches_refl)
  have sendp: "touches_payout (po_id payout) s
      (snd (sendUsdcPayout env (po_id payout) recipient (po_amount payout) stored
              (snd (reconcilePayoutTx env now payout s))))"
    for recipient stored
    by (rule touches_sendUsdcPayout) (rule rec)
  show ?thesis
    by (simp add: processPayout_def Let_def case_prod_unfold touches_refl rec sendp
        touches_intros split: tx_status.splits)
qed

subsection \<open>What a settlement retry writes\<close>











subsection \<open>Exhausted retries stop the bot\<close>



lemma exhausted_payouts:
  "payouts s1 = payouts s \<Longrightarrow> exhausted s1 settlementId = exhausted s settlementId"
  by (simp add: exhausted_def payouts_getBySettlement_def)








lemma exhausted_trigger:
  "exhausted (snd (triggerPayoutEmergencyStop send_ok channel x why s)) sid = exhausted s sid"
  by (rule exhausted_payouts)
     (simp add: triggerPayoutEmergencyStop_def Let_def settlements_updateStatus_def
        setEmergencyStop_def runtimeState_setEmergencyStopped_def split: option.splits)







subsection \<open>A settlement is created only after the earlier ones completed\<close>

lemma touches_payout_settlements:
  "touches_payout payoutId s s1 \<Longrightarrow> settlements s1 = settlements s"
  unfolding touches_payout_def by auto

lemma retry_payouts_settlements:
  "settlements (snd (retry_payouts envs send_ok now channel ps s)) = settlements s"
proof (induction ps arbitrary: s send_ok channel)
  case Nil
  then show ?case
    by simp
next
  case (Cons q ps)
  have one: "settlements (snd (processPayout (envs (po_id q)) now q s)) = settlements s"
    by (rule touches_payout_settlements [OF touches_processPayout])
  show ?case
    by (simp add: Let_def case_prod_unfold Cons.IH one split: option.splits)
qed

lemma updateStatus_ids:
  "map st_id (settlements (settlements_updateStatus sid st e s)) = map st_id (settlements s)"
  by (simp add: settlements_updateStatus_def o_def)

lemma trigger_ids:
  "map st_id (settlements (snd (triggerPayoutEmergencyStop send_ok channel sid why s)))
     = map st_id (settlements s)"
  by (simp add: triggerPayoutEmergencyStop_def Let_def setEmergencyStop_def
      runtimeState_setEmergencyStopped_def settlements_updateStatus_def o_def
      split: option.splits)

lemma retry_settlement_ids:
  "map st_id (settlements (snd (retry_settlement envs send_ok now channel settlement s)))
     = map st_id (settlements s)"
proof -
  have pass: "map st_id (settlements (snd (retry_payouts envs send_ok now channel ps s)))
      = map st_id (settlements s)" for ps
    by (simp add: retry_payouts_settlements)
  have fin: "map st_id (settlements (settlements_updateStatus sid st e
      (snd (retry_payouts envs send_ok now channel ps s)))) = map st_id (settlements s)"
    for sid st e ps
    by (simp add: updateStatus_ids pass)
  have trig: "map st_id (settlements (snd (triggerPayoutEmergencyStop send_ok channel sid why
      (snd (retry_payouts envs send_ok now channel ps s))))) = map st_id (settlements s)"
    for sid why ps
    by (simp add: trigger_ids pass)
  show ?thesis
    by (simp add: retry_settlement_def Let_def case_prod_unfold updateStatus_ids trigger_ids
        pass fin trig del: filter_filter split: completion.splits)
qed

lemma retry_settlements_ids:
  "map st_id (settlements (snd (retry_settlements envs send_ok now channel todo s)))
     = map st_id (settlements s)"
proof (induction todo arbitrary: s)
  case Nil
  then show ?case
    by simp
next
  case (Cons x rest)
  show ?case
    using retry_settlement_ids [of envs "send_ok (st_id x)" now channel x s]
    by (simp add: case_prod_unfold Cons.IH split: completion.splits)
qed

lemma handlePropose_settlements:
  "settlements (db (snd (handlePropose cfg env holder channel p))) = settlements (db p)"
proof -
  have "settlements (snd (startTrade cfg env (db p))) = settlements (db p)"
    using startTrade_settlements [of cfg env "db p"]
    by (cases "startTrade cfg env (db p)") auto
  then show ?thesis
    by (simp add: handlePropose_def)
qed

text \<open>
  C2. Whatever the process does next (a scheduler tick, a creation transaction, a delayed
  scheduled trade, a \<open>/propose\<close>, a settlement retry pass, \<open>/emergency-stop\<close> or
  \<open>/resume\<close>, a restart), from whatever state: if the step changes the ids in the
  settlements table, and so in particular if it inserts a settlement, then every
  settlement that was there before the step had status \<open>completed\<close>.
\<close>

theorem settlement_created_after_completed:
  assumes "step cfg p p'"
    and "map st_id (settlements (db p')) \<noteq> map st_id (settlements (db p))"
  shows "\<forall>x \<in> set (settlements (db p)). st_status x = ''completed''"
  using assms
proof (cases rule: step.cases)
  case (step_tick env)
  have "tick cfg env p = (fst (tick cfg env p), p')"
    by (simp add: step_tick)
  moreover have "settlements (db p') \<noteq> settlements (db p)"
    using assms(2) by auto
  ultimately show ?thesis
    by (rule tick_guard)
next
  case (step_create senv a mkt)
  have "settlements (snd (create_and_post cfg senv a mkt (db p))) = settlements (db p)"
    using create_and_post_settlements [of cfg senv a mkt "db p"]
    by (cases "create_and_post cfg senv a mkt (db p)") auto
  then show ?thesis
    using assms(2) by (simp add: step_create)
next
  case (step_timer due ty senv)
  let ?p = "p\<lparr>timers := remove1 (due, ty) (timers p)\<rparr>"
  have "settlements (db (snd (handleScheduledTrade cfg senv ty ?p))) = settlements (db ?p)"
    using handleScheduledTrade_settlements [of cfg senv ty ?p]
    by (cases "handleScheduledTrade cfg senv ty ?p") auto
  then show ?thesis
    using assms(2) by (simp add: step_timer)
next
  case (step_propose senv holder channel)
  then show ?thesis
    using assms(2) by (simp add: handlePropose_settlements)
next
  case (step_retry envs send_ok now)
  then show ?thesis
    using assms(2) by (simp add: retryFailedSettlements_def retry_settlements_ids)
next
  case (step_stop stopped)
  then show ?thesis
    using assms(2)
    by (simp add: setEmergencyStop_def runtimeState_setEmergencyStopped_def Let_def
        split: option.splits)
next
  case (step_restart channel)
  then show ?thesis
    using assms(2) by (simp add: restart_def initializeDatabase_def split: option.splits)
qed

theorem settlement_created_after_completed_witness:
  "step cfg0 (running payday_store) (snd (tick cfg0 payday_env (running payday_store)))
   \<and> map st_id (settlements (db (running payday_store))) = [1]
   \<and> map st_id (settlements (db (snd (tick cfg0 payday_env (running payday_store))))) = [1, 2]
   \<and> list_all (\<lambda>x. st_status x = ''completed'') (settlements (db (running payday_store)))"
proof -
  have s: "step cfg0 (running payday_store) (snd (tick cfg0 payday_env (running payday_store)))"
    by (rule step_tick)
  have before: "map st_id (settlements (db (running payday_store))) = [1]"
    by code_simp
  have after: "map st_id (settlements (db (snd (tick cfg0 payday_env (running payday_store)))))
      = [1, 2]"
    by code_simp
  have "\<forall>x \<in> set (settlements (db (running payday_store))). st_status x = ''completed''"
    using settlement_created_after_completed [OF s] before after by simp
  then show ?thesis
    using s before after by (simp add: list_all_iff)
qed

end
